theory Spec2Isabelle
  imports Complex_Main "HOL-Library.Sublist"
begin

section \<open>Strings\<close>

text \<open>
  A JavaScript string is a sequence of UTF-16 code units. The model keeps the code units
  below 256 (the type \<open>char\<close>): on them \<open>\s\<close> and \<open>trim\<close> recognise the code units
  9 to 13, 32 and 160, \<open>\d\<close> the ten ASCII digits, and \<open>toLowerCase\<close> maps the ASCII
  capitals and the Latin-1 capitals (192 to 222 without 215).
\<close>

definition code :: "char \<Rightarrow> nat" where
  "code c = of_char c"

definition isDigit :: "char \<Rightarrow> bool" where
  "isDigit c = (48 \<le> code c \<and> code c \<le> 57)"

definition isAlpha :: "char \<Rightarrow> bool" where
  "isAlpha c = ((65 \<le> code c \<and> code c \<le> 90) \<or> (97 \<le> code c \<and> code c \<le> 122))"

definition isSpace :: "char \<Rightarrow> bool" where
  "isSpace c = ((9 \<le> code c \<and> code c \<le> 13) \<or> code c = 32 \<or> code c = 160)"

definition isSep :: "char \<Rightarrow> bool" where
  "isSep c = (c = CHR ''-'' \<or> c = CHR ''/'')"

definition isCommaOrSpace :: "char \<Rightarrow> bool" where
  "isCommaOrSpace c = (c = CHR '','' \<or> isSpace c)"

definition toLowerChar :: "char \<Rightarrow> char" where
  "toLowerChar c =
     (if (65 \<le> code c \<and> code c \<le> 90) \<or> (192 \<le> code c \<and> code c \<le> 222 \<and> code c \<noteq> 215)
      then char_of (code c + 32) else c)"

definition toLowerCase :: "string \<Rightarrow> string" where
  "toLowerCase s = map toLowerChar s"

definition trim :: "string \<Rightarrow> string" where
  "trim s = rev (dropWhile isSpace (rev (dropWhile isSpace s)))"

text \<open>\<open>a.includes(b)\<close>: \<open>b\<close> occurs in \<open>a\<close> as a contiguous run.\<close>

fun includesStr :: "string \<Rightarrow> string \<Rightarrow> bool" where
  "includesStr [] b = (b = [])"
| "includesStr (x # xs) b = (prefix b (x # xs) \<or> includesStr xs b)"

text \<open>\<open>parseInt(s, 10)\<close> on a string of decimal digits (the only strings the code gives it).\<close>

definition digitVal :: "char \<Rightarrow> int" where
  "digitVal c = int (code c) - 48"

definition parseInt :: "string \<Rightarrow> int" where
  "parseInt s = foldl (\<lambda>a c. 10 * a + digitVal c) 0 s"

text \<open>\<open>String(n)\<close> for an integer and \<open>padStart\<close>.\<close>

definition digitChar :: "nat \<Rightarrow> char" where
  "digitChar n = char_of (48 + n)"

fun decimal :: "nat \<Rightarrow> string" where
  "decimal n = (if n < 10 then [digitChar n] else decimal (n div 10) @ [digitChar (n mod 10)])"

declare decimal.simps [simp del]

definition String_of_int :: "int \<Rightarrow> string" where
  "String_of_int i = (if i < 0 then CHR ''-'' # decimal (nat (- i)) else decimal (nat i))"

definition padStart :: "string \<Rightarrow> nat \<Rightarrow> char \<Rightarrow> string" where
  "padStart s n c = replicate (n - length s) c @ s"

section \<open>The regular expressions of parseDate\<close>

text \<open>
  The four patterns are sequences of greedy repetitions of a character class and, in the
  relative pattern, alternatives of literal words under the flag \<open>i\<close>. \<open>matchHere\<close> is
  the backtracking matcher at one position: a repetition tries the longest run first, an
  alternative its words from left to right; the result lists the text each item matched.
  \<open>regexSearch\<close> is \<open>String.prototype.match\<close> without the flag \<open>g\<close>: the first
  position, from the left, where the pattern matches.
\<close>

datatype item = Rep "char \<Rightarrow> bool" nat "nat option" | AltCI "string list"

fun firstSome :: "('a \<Rightarrow> 'b option) \<Rightarrow> 'a list \<Rightarrow> 'b option" where
  "firstSome f [] = None"
| "firstSome f (x # xs) = (case f x of Some y \<Rightarrow> Some y | None \<Rightarrow> firstSome f xs)"

fun matchHere :: "item list \<Rightarrow> string \<Rightarrow> string list option" where
  "matchHere [] s = Some []"
| "matchHere (Rep p lo hi # its) s =
     (let n = length (takeWhile p s);
          m = (case hi of None \<Rightarrow> n | Some h \<Rightarrow> min h n)
      in if m < lo then None
         else firstSome (\<lambda>k. map_option ((#) (take k s)) (matchHere its (drop k s)))
                (rev [lo..<Suc m]))"
| "matchHere (AltCI alts # its) s =
     firstSome
       (\<lambda>a. if toLowerCase (take (length a) s) = toLowerCase a
            then map_option ((#) (take (length a) s)) (matchHere its (drop (length a) s))
            else None)
       alts"

fun regexSearch :: "item list \<Rightarrow> string \<Rightarrow> string list option" where
  "regexSearch its [] = matchHere its []"
| "regexSearch its (c # cs) =
     (case matchHere its (c # cs) of Some g \<Rightarrow> Some g | None \<Rightarrow> regexSearch its cs)"

text \<open>\<^verbatim>\<open>/(\d+)\s+(day|days|week|weeks|month|months|year|years)\s+ago/i\<close>\<close>

definition relativeRe :: "item list" where
  "relativeRe =
     [Rep isDigit 1 None, Rep isSpace 1 None,
      AltCI [''day'', ''days'', ''week'', ''weeks'', ''month'', ''months'', ''year'', ''years''],
      Rep isSpace 1 None, AltCI [''ago'']]"

text \<open>\<^verbatim>\<open>/([A-Za-z]{3,9})\s+(\d{1,2})(?:,|\s)+(\d{4})/\<close>\<close>

definition monthNameRe :: "item list" where
  "monthNameRe =
     [Rep isAlpha 3 (Some 9), Rep isSpace 1 None, Rep isDigit 1 (Some 2),
      Rep isCommaOrSpace 1 None, Rep isDigit 4 (Some 4)]"

text \<open>\<^verbatim>\<open>/(\d{4})[-\/](\d{1,2})[-\/](\d{1,2})/\<close>\<close>

definition numericRe :: "item list" where
  "numericRe =
     [Rep isDigit 4 (Some 4), Rep isSep 1 (Some 1), Rep isDigit 1 (Some 2),
      Rep isSep 1 (Some 1), Rep isDigit 1 (Some 2)]"

text \<open>\<^verbatim>\<open>/(\d{1,2})[-\/](\d{1,2})[-\/](\d{4})/\<close>\<close>

definition euroRe :: "item list" where
  "euroRe =
     [Rep isDigit 1 (Some 2), Rep isSep 1 (Some 1), Rep isDigit 1 (Some 2),
      Rep isSep 1 (Some 1), Rep isDigit 4 (Some 4)]"

section \<open>Time values and the calendar of the Date object\<close>

text \<open>
  A Date holds a time value: milliseconds since 1970-01-01T00:00:00Z, or NaN
  (\<open>InvalidDate\<close>). The day and year arithmetic is that of the language standard;
  \<open>YearFromDay\<close> finds the largest year whose first day is not after the given day by
  stepping up from a lower estimate.
\<close>

datatype jsdate = InvalidDate | DateMs int

definition msPerDay :: int where
  "msPerDay = 86400000"

definition Day :: "int \<Rightarrow> int" where
  "Day t = t div msPerDay"

definition TimeWithinDay :: "int \<Rightarrow> int" where
  "TimeWithinDay t = t mod msPerDay"

definition DaysInYear :: "int \<Rightarrow> int" where
  "DaysInYear y =
     (if y mod 4 \<noteq> 0 then 365
      else if y mod 100 \<noteq> 0 then 366
      else if y mod 400 \<noteq> 0 then 365
      else 366)"

definition DayFromYear :: "int \<Rightarrow> int" where
  "DayFromYear y =
     365 * (y - 1970) + (y - 1969) div 4 - (y - 1901) div 100 + (y - 1601) div 400"

lemma div_step:
  fixes x n :: int
  assumes "0 < n"
  shows "(x + 1) div n = x div n + (if (x + 1) mod n = 0 then 1 else 0)"
proof (cases "(x + 1) mod n = 0")
  case True
  define q where "q = (x + 1) div n"
  have "x + 1 = n * q" using True unfolding q_def by (simp add: mod_eq_0_iff_dvd)
  then have "x = n * (q - 1) + (n - 1)" by (simp add: algebra_simps)
  then have "x div n = q - 1"
    using assms by (intro int_div_pos_eq [where r = "n - 1"]) auto
  then show ?thesis using True unfolding q_def by simp
next
  case False
  define q where "q = x div n"
  define r where "r = x mod n"
  have x: "x = n * q + r" unfolding q_def r_def by simp
  have r: "0 \<le> r" "r < n" using assms unfolding r_def by simp_all
  have "r + 1 \<noteq> n"
  proof
    assume "r + 1 = n"
    then have "x + 1 = n * (q + 1)" using x by (simp add: algebra_simps)
    then have "(x + 1) mod n = 0" by simp
    with False show False by simp
  qed
  with r have "r + 1 < n" by simp
  moreover have "x + 1 = n * q + (r + 1)" using x by simp
  ultimately have "(x + 1) div n = q"
    using r by (intro int_div_pos_eq [where r = "r + 1"]) auto
  then show ?thesis using False unfolding q_def by simp
qed

lemma mod_shift:
  fixes y k n :: int
  assumes "k mod n = 0"
  shows "(y - k) mod n = 0 \<longleftrightarrow> y mod n = 0"
  using assms by (metis diff_zero mod_diff_right_eq)

lemma DayFromYear_Suc: "DayFromYear (y + 1) = DayFromYear y + DaysInYear y"
proof -
  define a where "a = (y - 1969) div 4"
  define b where "b = (y - 1901) div 100"
  define c where "c = (y - 1601) div 400"
  have d4: "(y - 1968) div 4 = a + (if y mod 4 = 0 then 1 else 0)"
    using div_step [of 4 "y - 1969"] mod_shift [of 1968 4 y] unfolding a_def by simp
  have d100: "(y - 1900) div 100 = b + (if y mod 100 = 0 then 1 else 0)"
    using div_step [of 100 "y - 1901"] mod_shift [of 1900 100 y] unfolding b_def by simp
  have d400: "(y - 1600) div 400 = c + (if y mod 400 = 0 then 1 else 0)"
    using div_step [of 400 "y - 1601"] mod_shift [of 1600 400 y] unfolding c_def by simp
  have m4: "y mod 100 = 0 \<Longrightarrow> y mod 4 = 0"
    using mod_mod_cancel [of 4 100 y] by simp
  have m100: "y mod 400 = 0 \<Longrightarrow> y mod 100 = 0"
    using mod_mod_cancel [of 100 400 y] by simp
  have e: "y + 1 - 1970 = y - 1969" "y + 1 - 1969 = y - 1968" "y + 1 - 1901 = y - 1900"
    "y + 1 - 1601 = y - 1600" by simp_all
  have "DayFromYear (y + 1) =
      365 * (y - 1969) + (y - 1968) div 4 - (y - 1900) div 100 + (y - 1600) div 400"
    unfolding DayFromYear_def e by (rule refl)
  also have "\<dots> = (365 * (y - 1970) + a - b + c) + DaysInYear y"
    unfolding d4 d100 d400 DaysInYear_def using m4 m100
    by (cases "y mod 4 = 0"; cases "y mod 100 = 0"; cases "y mod 400 = 0") simp_all
  finally show ?thesis unfolding DayFromYear_def a_def b_def c_def .
qed

lemma DaysInYear_pos: "0 < DaysInYear y"
  by (simp add: DaysInYear_def)

function yearUp :: "int \<Rightarrow> int \<Rightarrow> int" where
  "yearUp d y = (if DayFromYear (y + 1) \<le> d then yearUp d (y + 1) else y)"
  by pat_completeness auto
termination
proof (relation "measure (\<lambda>(d, y). nat (d + 1 - DayFromYear (y + 1)))")
  show "wf (measure (\<lambda>(d, y). nat (d + 1 - DayFromYear (y + 1))))" by simp
next
  fix d y :: int
  assume a: "DayFromYear (y + 1) \<le> d"
  have "DayFromYear (y + 1) < DayFromYear (y + 1 + 1)"
    unfolding DayFromYear_Suc [of "y + 1"] using DaysInYear_pos [of "y + 1"] by simp
  with a show "((d, y + 1), (d, y)) \<in> measure (\<lambda>(d, y). nat (d + 1 - DayFromYear (y + 1)))"
    by simp
qed

declare yearUp.simps [simp del]

definition yearLow :: "int \<Rightarrow> int" where
  "yearLow d = 1970 + (if 0 \<le> d then d div 366 else d div 365)"

definition YearFromDay :: "int \<Rightarrow> int" where
  "YearFromDay d = yearUp d (yearLow d)"

definition YearFromTime :: "int \<Rightarrow> int" where
  "YearFromTime t = YearFromDay (Day t)"

definition leapYear :: "int \<Rightarrow> bool" where
  "leapYear y = (DaysInYear y = 366)"

definition DayWithinYear :: "int \<Rightarrow> int" where
  "DayWithinYear t = Day t - DayFromYear (YearFromTime t)"

text \<open>The day of the year on which month \<open>m\<close> (0 to 11) starts; \<open>m = 12\<close> gives the
  length of the year.\<close>

definition monthStart :: "bool \<Rightarrow> int \<Rightarrow> int" where
  "monthStart leap m =
     [0, 31, 59, 90, 120, 151, 181, 212, 243, 273, 304, 334, 365] ! nat m
       + (if leap \<and> 2 \<le> m then 1 else 0)"

definition monthOfDay :: "bool \<Rightarrow> int \<Rightarrow> int" where
  "monthOfDay leap d =
     (if d < monthStart leap 1 then 0 else if d < monthStart leap 2 then 1
      else if d < monthStart leap 3 then 2 else if d < monthStart leap 4 then 3
      else if d < monthStart leap 5 then 4 else if d < monthStart leap 6 then 5
      else if d < monthStart leap 7 then 6 else if d < monthStart leap 8 then 7
      else if d < monthStart leap 9 then 8 else if d < monthStart leap 10 then 9
      else if d < monthStart leap 11 then 10 else 11)"

definition MonthFromTime :: "int \<Rightarrow> int" where
  "MonthFromTime t = monthOfDay (leapYear (YearFromTime t)) (DayWithinYear t)"

definition DateFromTime :: "int \<Rightarrow> int" where
  "DateFromTime t =
     DayWithinYear t - monthStart (leapYear (YearFromTime t)) (MonthFromTime t) + 1"

definition DaysInMonth :: "int \<Rightarrow> int \<Rightarrow> int" where
  "DaysInMonth y m = monthStart (leapYear y) (m + 1) - monthStart (leapYear y) m"

definition MakeDay :: "int \<Rightarrow> int \<Rightarrow> int \<Rightarrow> int" where
  "MakeDay year month date =
     (let ym = year + month div 12; mn = month mod 12
      in DayFromYear ym + monthStart (leapYear ym) mn + date - 1)"

definition MakeDate :: "int \<Rightarrow> int \<Rightarrow> int" where
  "MakeDate day time = day * msPerDay + time"

definition TimeClip :: "int \<Rightarrow> jsdate" where
  "TimeClip t = (if \<bar>t\<bar> \<le> 8640000000000000 then DateMs t else InvalidDate)"

section \<open>The host: clock, time zone and the native date parser\<close>

text \<open>
  What the JavaScript host supplies is a parameter of the model:
  \<^item> \<open>nowMs\<close>: the time value of \<open>new Date()\<close> at the call;
  \<^item> \<open>tzaUTC t\<close>: the offset of local time from UTC at the UTC time value \<open>t\<close>,
    \<open>tzaLocal t\<close>: the offset at the local time value \<open>t\<close> (LocalTZA of the standard);
  \<^item> \<open>hostParse\<close>: what \<open>Date.parse\<close> makes of a string that is not a complete
    date-only ISO string (\<open>None\<close> is NaN). The standard fixes the date-only form
    \<open>YYYY-MM-DD\<close>: it denotes midnight UTC of that day;
  \<^item> \<open>hostParseFloat\<close>: the function \<open>parseFloat\<close>, to a number or NaN.
\<close>

datatype jsnum = NaN | Num real

record env =
  hostParse :: "string \<Rightarrow> int option"
  nowMs :: int
  tzaUTC :: "int \<Rightarrow> int"
  tzaLocal :: "int \<Rightarrow> int"
  hostParseFloat :: "string \<Rightarrow> jsnum"

definition LocalTime :: "env \<Rightarrow> int \<Rightarrow> int" where
  "LocalTime e t = t + tzaUTC e t"

definition UTC :: "env \<Rightarrow> int \<Rightarrow> int" where
  "UTC e t = t - tzaLocal e t"

definition isoDateOnly :: "string \<Rightarrow> (int \<times> int \<times> int) option" where
  "isoDateOnly s =
     (let ys = take 4 s; ms = take 2 (drop 5 s); ds = drop 8 s;
          y = parseInt ys; m = parseInt ms; d = parseInt ds
      in if length s = 10 \<and> s ! 4 = CHR ''-'' \<and> s ! 7 = CHR ''-''
            \<and> list_all isDigit ys \<and> list_all isDigit ms \<and> list_all isDigit ds
            \<and> 1 \<le> m \<and> m \<le> 12 \<and> 1 \<le> d \<and> d \<le> DaysInMonth y (m - 1)
         then Some (y, m, d) else None)"

definition Date_parse :: "env \<Rightarrow> string \<Rightarrow> int option" where
  "Date_parse e s =
     (case isoDateOnly s of
        Some (y, m, d) \<Rightarrow> Some (MakeDate (MakeDay y (m - 1) d) 0)
      | None \<Rightarrow> hostParse e s)"

text \<open>\<open>new Date(string)\<close>\<close>

definition newDateString :: "env \<Rightarrow> string \<Rightarrow> jsdate" where
  "newDateString e s = (case Date_parse e s of None \<Rightarrow> InvalidDate | Some t \<Rightarrow> TimeClip t)"

text \<open>\<open>new Date(year, monthIndex, day)\<close>: local midnight; a year from 0 to 99 means
  1900 + year.\<close>

definition newDateYMD :: "env \<Rightarrow> int \<Rightarrow> int \<Rightarrow> int \<Rightarrow> jsdate" where
  "newDateYMD e year month day =
     (let yr = (if 0 \<le> year \<and> year \<le> 99 then 1900 + year else year)
      in TimeClip (UTC e (MakeDate (MakeDay yr month day) 0)))"

text \<open>The getters and setters parseDate and formatDate call, on a valid time value.\<close>

definition getFullYear :: "env \<Rightarrow> int \<Rightarrow> int" where
  "getFullYear e t = YearFromTime (LocalTime e t)"

definition getMonth :: "env \<Rightarrow> int \<Rightarrow> int" where
  "getMonth e t = MonthFromTime (LocalTime e t)"

definition getDate :: "env \<Rightarrow> int \<Rightarrow> int" where
  "getDate e t = DateFromTime (LocalTime e t)"

definition setDate :: "env \<Rightarrow> int \<Rightarrow> int \<Rightarrow> jsdate" where
  "setDate e t dt =
     (let lt = LocalTime e t
      in TimeClip (UTC e (MakeDate (MakeDay (YearFromTime lt) (MonthFromTime lt) dt)
                                   (TimeWithinDay lt))))"

definition setMonth :: "env \<Rightarrow> int \<Rightarrow> int \<Rightarrow> jsdate" where
  "setMonth e t m =
     (let lt = LocalTime e t
      in TimeClip (UTC e (MakeDate (MakeDay (YearFromTime lt) m (DateFromTime lt))
                                   (TimeWithinDay lt))))"

definition setFullYear :: "env \<Rightarrow> int \<Rightarrow> int \<Rightarrow> jsdate" where
  "setFullYear e t y =
     (let lt = LocalTime e t
      in TimeClip (UTC e (MakeDate (MakeDay y (MonthFromTime lt) (DateFromTime lt))
                                   (TimeWithinDay lt))))"

section \<open>dateUtils: parseDate, formatDate, isDateInRange\<close>

definition months :: "string \<Rightarrow> int option" where
  "months = map_of
     [(''jan'', 0), (''january'', 0), (''feb'', 1), (''february'', 1), (''mar'', 2),
      (''march'', 2), (''apr'', 3), (''april'', 3), (''may'', 4), (''jun'', 5), (''june'', 5),
      (''jul'', 6), (''july'', 6), (''aug'', 7), (''august'', 7), (''sep'', 8),
      (''september'', 8), (''oct'', 9), (''october'', 9), (''nov'', 10), (''november'', 10),
      (''dec'', 11), (''december'', 11)]"

text \<open>The result is \<open>None\<close> for null and \<open>Some\<close> of a Date object otherwise.\<close>

definition parseDate :: "env \<Rightarrow> string \<Rightarrow> jsdate option" where
  "parseDate e dateStr =
     (if dateStr = [] then None
      else
        let trimmedDate = trim dateStr in
        case newDateString e trimmedDate of
          DateMs t \<Rightarrow> Some (DateMs t)
        | InvalidDate \<Rightarrow>
            (case regexSearch relativeRe trimmedDate of
               Some g \<Rightarrow>
                 (let amount = parseInt (g ! 0);
                      unit = toLowerCase (g ! 2);
                      now = nowMs e
                  in Some
                      (if unit = ''day'' \<or> unit = ''days''
                         then setDate e now (getDate e now - amount)
                       else if unit = ''week'' \<or> unit = ''weeks''
                         then setDate e now (getDate e now - amount * 7)
                       else if unit = ''month'' \<or> unit = ''months''
                         then setMonth e now (getMonth e now - amount)
                       else if unit = ''year'' \<or> unit = ''years''
                         then setFullYear e now (getFullYear e now - amount)
                       else DateMs now))
             | None \<Rightarrow>
                 (case (case regexSearch monthNameRe trimmedDate of
                          Some g \<Rightarrow>
                            (case months (toLowerCase (g ! 0)) of
                               Some monthIndex \<Rightarrow>
                                 Some (newDateYMD e (parseInt (g ! 4)) monthIndex
                                         (parseInt (g ! 2)))
                             | None \<Rightarrow> None)
                        | None \<Rightarrow> None) of
                    Some d \<Rightarrow> Some d
                  | None \<Rightarrow>
                      (case regexSearch numericRe trimmedDate of
                         Some g \<Rightarrow>
                           Some (newDateYMD e (parseInt (g ! 0)) (parseInt (g ! 2) - 1)
                                   (parseInt (g ! 4)))
                       | None \<Rightarrow>
                           (case regexSearch euroRe trimmedDate of
                              Some g \<Rightarrow>
                                Some (newDateYMD e (parseInt (g ! 4)) (parseInt (g ! 2) - 1)
                                        (parseInt (g ! 0)))
                            | None \<Rightarrow> None)))))"

fun formatDate :: "env \<Rightarrow> jsdate option \<Rightarrow> string" where
  "formatDate e None = []"
| "formatDate e (Some InvalidDate) = []"
| "formatDate e (Some (DateMs t)) =
     (let year = getFullYear e t;
          month = padStart (String_of_int (getMonth e t + 1)) 2 CHR ''0'';
          day = padStart (String_of_int (getDate e t)) 2 CHR ''0''
      in String_of_int year @ ''-'' @ month @ ''-'' @ day)"

text \<open>\<open>a <= b\<close> on two Date objects compares the time values; a comparison with NaN is
  false. \<open>a >= b\<close> is \<open>dateLe b a\<close>.\<close>

fun dateLe :: "jsdate \<Rightarrow> jsdate \<Rightarrow> bool" where
  "dateLe (DateMs a) (DateMs b) = (a \<le> b)"
| "dateLe _ _ = False"

fun isDateInRange :: "jsdate option \<Rightarrow> jsdate option \<Rightarrow> jsdate option \<Rightarrow> bool" where
  "isDateInRange (Some date) (Some startDate) (Some endDate) =
     (dateLe startDate date \<and> dateLe date endDate)"
| "isDateInRange _ _ _ = False"

section \<open>The branches of parseDate as a chain of rules\<close>

text \<open>
  Each branch of parseDate, taken by itself, is a rule from the trimmed input to an
  optional Date; \<open>parseByRules\<close> tries the five rules in a fixed order until one
  succeeds. The rules are the branches of the source, so comparing parseDate with the
  chain settles the order in which the branches are tried and nothing else.
  \<open>relativeDays n\<close> is the text of the relative expression for \<open>n\<close> days.
\<close>

definition nativeRule :: "env \<Rightarrow> string \<Rightarrow> jsdate option" where
  "nativeRule e s = (case newDateString e s of DateMs t \<Rightarrow> Some (DateMs t) | InvalidDate \<Rightarrow> None)"

definition subtractUnits :: "env \<Rightarrow> int \<Rightarrow> string \<Rightarrow> jsdate" where
  "subtractUnits e amount unit =
     (let now = nowMs e in
      if unit = ''day'' \<or> unit = ''days'' then setDate e now (getDate e now - amount)
      else if unit = ''week'' \<or> unit = ''weeks'' then setDate e now (getDate e now - amount * 7)
      else if unit = ''month'' \<or> unit = ''months'' then setMonth e now (getMonth e now - amount)
      else if unit = ''year'' \<or> unit = ''years''
        then setFullYear e now (getFullYear e now - amount)
      else DateMs now)"

definition relativeRule :: "env \<Rightarrow> string \<Rightarrow> jsdate option" where
  "relativeRule e s =
     (case regexSearch relativeRe s of
        None \<Rightarrow> None
      | Some g \<Rightarrow> Some (subtractUnits e (parseInt (g ! 0)) (toLowerCase (g ! 2))))"

definition monthNameRule :: "env \<Rightarrow> string \<Rightarrow> jsdate option" where
  "monthNameRule e s =
     (case regexSearch monthNameRe s of
        None \<Rightarrow> None
      | Some g \<Rightarrow>
          (case months (toLowerCase (g ! 0)) of
             None \<Rightarrow> None
           | Some monthIndex \<Rightarrow>
               Some (newDateYMD e (parseInt (g ! 4)) monthIndex (parseInt (g ! 2)))))"

definition ymdRule :: "env \<Rightarrow> string \<Rightarrow> jsdate option" where
  "ymdRule e s =
     (case regexSearch numericRe s of
        None \<Rightarrow> None
      | Some g \<Rightarrow>
          Some (newDateYMD e (parseInt (g ! 0)) (parseInt (g ! 2) - 1) (parseInt (g ! 4))))"

definition dmyRule :: "env \<Rightarrow> string \<Rightarrow> jsdate option" where
  "dmyRule e s =
     (case regexSearch euroRe s of
        None \<Rightarrow> None
      | Some g \<Rightarrow>
          Some (newDateYMD e (parseInt (g ! 4)) (parseInt (g ! 2) - 1) (parseInt (g ! 0))))"

definition ruleChain :: "(env \<Rightarrow> string \<Rightarrow> jsdate option) list" where
  "ruleChain = [nativeRule, relativeRule, monthNameRule, ymdRule, dmyRule]"

definition parseByRules :: "env \<Rightarrow> string \<Rightarrow> jsdate option" where
  "parseByRules e raw =
     (if raw = [] then None else firstSome (\<lambda>rule. rule e (trim raw)) ruleChain)"


text \<open>The text \<open>YYYY-MM-DD\<close> of a date, as formatDate writes it.\<close>

definition isoText :: "int \<Rightarrow> int \<Rightarrow> int \<Rightarrow> string" where
  "isoText y m d =
     String_of_int y @ ''-'' @ padStart (String_of_int m) 2 CHR ''0'' @ ''-''
       @ padStart (String_of_int d) 2 CHR ''0''"

section \<open>The rendered page\<close>

text \<open>
  What the browser shows is data of the model. A node carries its \<open>innerText\<close>, its
  \<open>textContent\<close>, its attributes, and for each selector string the code queries on it the
  list \<open>querySelectorAll\<close> returns (a selector that is not listed matches nothing). A page
  is its document and what a click on the next control does: the navigation throws an error
  with a message, or the browser shows the following page.
\<close>

datatype node =
  Node (innerText: string) (textContent: string) (attrs: "(string \<times> string) list")
       (queries: "(string \<times> node list) list")

definition querySelectorAll :: "node \<Rightarrow> string \<Rightarrow> node list" where
  "querySelectorAll n sel = (case map_of (queries n) sel of None \<Rightarrow> [] | Some ns \<Rightarrow> ns)"

definition querySelector :: "node \<Rightarrow> string \<Rightarrow> node option" where
  "querySelector n sel = (case querySelectorAll n sel of [] \<Rightarrow> None | x # _ \<Rightarrow> Some x)"

definition getAttribute :: "node \<Rightarrow> string \<Rightarrow> string option" where
  "getAttribute n a = map_of (attrs n) a"

text \<open>\<open>a || b\<close> on two results of querySelector.\<close>

definition orElse :: "'a option \<Rightarrow> 'a option \<Rightarrow> 'a option" where
  "orElse a b = (case a of Some x \<Rightarrow> Some x | None \<Rightarrow> b)"

record document =
  docTitle :: string
  root :: node

datatype page = Page (pageDoc: document) (clickNext: "string + page")

section \<open>Reviews and results\<close>

text \<open>A rating is a JavaScript number: NaN or a value.\<close>

record reviewer =
  name :: string
  info :: string

record review =
  title :: string
  description :: string
  date :: string
  rating :: jsnum
  reviewer :: reviewer
  source :: string

datatype result = Success (data: "review list") (noteText: "string option") | Failure (error: string)

text \<open>An exception that leaves a function: its name and its message.\<close>

datatype exn = Exn string string

fun message :: "exn \<Rightarrow> string" where
  "message (Exn n m) = m"

text \<open>The filter all three scrapers apply to the accumulated reviews.\<close>

definition inRange :: "env \<Rightarrow> jsdate \<Rightarrow> jsdate \<Rightarrow> review \<Rightarrow> bool" where
  "inRange e startDate endDate r =
     (case parseDate e (date r) of
        None \<Rightarrow> False
      | Some reviewDate \<Rightarrow> dateLe startDate reviewDate \<and> dateLe reviewDate endDate)"

definition filterReviews :: "env \<Rightarrow> jsdate \<Rightarrow> jsdate \<Rightarrow> review list \<Rightarrow> review list" where
  "filterReviews e startDate endDate rs = filter (inRange e startDate endDate) rs"

section \<open>Extraction of one review\<close>

definition dq :: char where
  "dq = CHR 0x22"

definition backslash :: char where
  "backslash = CHR 0x5C"

text \<open>The separator \<^verbatim>\<open>'\\n\\n'\<close> of the source: backslash, n, backslash, n.\<close>

definition joinSep :: string where
  "joinSep = [backslash, CHR ''n'', backslash, CHR ''n'']"

fun join :: "string \<Rightarrow> string list \<Rightarrow> string" where
  "join sep [] = []"
| "join sep [x] = x"
| "join sep (x # y # ys) = x @ sep @ join sep (y # ys)"

definition trimmedText :: "node option \<Rightarrow> string \<Rightarrow> string" where
  "trimmedText el dflt = (case el of Some n \<Rightarrow> trim (innerText n) | None \<Rightarrow> dflt)"

definition reviewTextOf :: "string \<Rightarrow> string \<Rightarrow> string \<Rightarrow> string" where
  "reviewTextOf mainReview pros cons =
     join joinSep
       (filter (\<lambda>x. x \<noteq> [])
          [mainReview,
           if pros \<noteq> [] then ''Pros: '' @ pros else [],
           if cons \<noteq> [] then ''Cons: '' @ cons else []])"

definition ratingOf :: "(string \<Rightarrow> jsnum) \<Rightarrow> node option \<Rightarrow> string \<Rightarrow> jsnum" where
  "ratingOf parseFloat ratingElement starSel =
     (case ratingElement of
        None \<Rightarrow> Num 0
      | Some r \<Rightarrow>
          (case getAttribute r ''data-rating'' of
             Some dataRating \<Rightarrow>
               if dataRating \<noteq> [] then parseFloat dataRating
               else Num (real (length (querySelectorAll r starSel)))
           | None \<Rightarrow> Num (real (length (querySelectorAll r starSel)))))"

definition extractTrustRadius :: "env \<Rightarrow> node \<Rightarrow> review" where
  "extractTrustRadius e reviewElement =
     (let titleElement = querySelector reviewElement ''.review-title, .review-heading'';
          title' = trimmedText titleElement ''No Title'';
          ratingElement = querySelector reviewElement ''[data-rating], .star-rating'';
          rating' = ratingOf (hostParseFloat e) ratingElement ''.filled-star'';
          mainReview = trimmedText (querySelector reviewElement ''.review-body, .review-content'') [];
          pros = trimmedText (querySelector reviewElement ''.pros-text, .review-pros'') [];
          cons = trimmedText (querySelector reviewElement ''.cons-text, .review-cons'') [];
          reviewText = reviewTextOf mainReview pros cons;
          dateText = trimmedText (querySelector reviewElement ''.review-date'') [];
          reviewerName =
            trimmedText (querySelector reviewElement ''.reviewer-name, .user-info'') ''Anonymous'';
          reviewerInfo =
            trimmedText (querySelector reviewElement ''.reviewer-details, .reviewer-meta'') []
      in \<lparr>title = title',
          description = (if reviewText \<noteq> [] then reviewText else ''No review content available''),
          date = dateText,
          rating = rating',
          reviewer = \<lparr>name = reviewerName, info = reviewerInfo\<rparr>,
          source = ''TrustRadius''\<rparr>)"

definition extractCapterra :: "env \<Rightarrow> node \<Rightarrow> review" where
  "extractCapterra e reviewElement =
     (let titleElement = querySelector reviewElement ''.review__title'';
          title' = trimmedText titleElement ''No Title'';
          ratingElement =
            orElse (querySelector reviewElement ''[data-rating]'')
                   (querySelector reviewElement ''.stars-container'');
          rating' = ratingOf (hostParseFloat e) ratingElement ''.star-filled'';
          pros = trimmedText (querySelector reviewElement ''.review-pros'') [];
          cons = trimmedText (querySelector reviewElement ''.review-cons'') [];
          mainReview =
            trimmedText (orElse (querySelector reviewElement ''.review-content'')
                                (querySelector reviewElement ''.review__text'')) [];
          reviewText = reviewTextOf mainReview pros cons;
          dateText =
            trimmedText (orElse (querySelector reviewElement ''.review-date'')
                                (querySelector reviewElement ''.review__date'')) [];
          reviewerName =
            trimmedText (orElse (querySelector reviewElement ''.reviewer-name'')
                                (querySelector reviewElement ''.review__author'')) ''Anonymous'';
          reviewerInfo =
            trimmedText (orElse (querySelector reviewElement ''.reviewer-info'')
                                (querySelector reviewElement ''.review__author-company'')) []
      in \<lparr>title = title',
          description = (if reviewText \<noteq> [] then reviewText else ''No review content available''),
          date = dateText,
          rating = rating',
          reviewer = \<lparr>name = reviewerName, info = reviewerInfo\<rparr>,
          source = ''Capterra''\<rparr>)"

section \<open>The pagination loop of the TrustRadius and the Capterra scraper\<close>

text \<open>
  The two loops of the source are the same text up to the selector of the review
  containers, the extraction of one review and the selector of the next control; the
  model is one loop with these three as parameters. The state holds the variables of the
  source; \<open>extractions\<close> is a ghost counter of the page extractions performed.
  A rejected navigation runs the \<open>catch\<close> handler (\<open>hasNextPage = false\<close>) and then
  \<open>currentPage++\<close>.
\<close>

record loopState =
  page :: page
  allReviews :: "review list"
  currentPage :: nat
  hasNextPage :: bool
  extractions :: nat

function scrapeLoop ::
  "string \<Rightarrow> (node \<Rightarrow> review) \<Rightarrow> string \<Rightarrow> nat \<Rightarrow> loopState \<Rightarrow> loopState" where
  "scrapeLoop containerSel extract nextSel maxPages st =
     (if hasNextPage st \<and> currentPage st \<le> maxPages then
        (let pageReviews = map extract (querySelectorAll (root (pageDoc (page st))) containerSel);
             st1 = st\<lparr>allReviews := allReviews st @ pageReviews,
                      extractions := extractions st + 1\<rparr>;
             hasNext = (querySelector (root (pageDoc (page st))) nextSel \<noteq> None)
         in if hasNext \<and> currentPage st < maxPages then
              (case clickNext (page st) of
                 Inl err \<Rightarrow>
                   scrapeLoop containerSel extract nextSel maxPages
                     (st1\<lparr>hasNextPage := False, currentPage := currentPage st + 1\<rparr>)
               | Inr p \<Rightarrow>
                   scrapeLoop containerSel extract nextSel maxPages
                     (st1\<lparr>page := p, hasNextPage := True, currentPage := currentPage st + 1\<rparr>))
            else scrapeLoop containerSel extract nextSel maxPages (st1\<lparr>hasNextPage := False\<rparr>))
      else st)"
  by pat_completeness auto
termination
  by (relation "measure (\<lambda>(c, x, n, maxPages, st).
        if hasNextPage st then Suc (Suc maxPages - currentPage st) else 0)") auto

declare scrapeLoop.simps [simp del]

definition initialState :: "page \<Rightarrow> loopState" where
  "initialState p =
     \<lparr>page = p, allReviews = [], currentPage = 1, hasNextPage = True, extractions = 0\<rparr>"

definition trNextSel :: string where
  "trNextSel = ''.pagination-next:not(.disabled), a[rel='' @ [dq] @ ''next'' @ [dq]
                 @ '']:not(.disabled)''"

definition capNextSel :: string where
  "capNextSel = ''.next-page:not(.disabled), a[rel='' @ [dq] @ ''next'' @ [dq]
                  @ '']:not(.disabled)''"

definition trLoop :: "env \<Rightarrow> nat \<Rightarrow> loopState \<Rightarrow> loopState" where
  "trLoop e = scrapeLoop ''.review-card, .review-container'' (extractTrustRadius e) trNextSel"

definition capLoop :: "env \<Rightarrow> nat \<Rightarrow> loopState \<Rightarrow> loopState" where
  "capLoop e = scrapeLoop ''.review'' (extractCapterra e) capNextSel"

section \<open>scrapeTrustRadiusReviews\<close>

text \<open>
  The outcomes of the browser calls are the world of a run: \<open>puppeteer.launch\<close> (outside
  the \<open>try\<close>), the four \<open>page.goto\<close> calls, each rejecting with a message or loading
  a document. The other calls (\<open>newPage\<close>, \<open>evaluate\<close>, \<open>waitForSelector\<close>, whose
  rejection the source catches and ignores, and \<open>browser.close()\<close> in the \<open>finally\<close>
  block) are taken to succeed.
  Inside the \<open>try\<close> an exception is its message (\<open>Inl\<close>); the \<open>catch\<close> block turns
  it into a failure result.
\<close>

record trWorld =
  trLaunch :: "string option"
  trGotoProduct :: "string + document"
  trGotoSearch :: "string + document"
  trGotoFound :: "string option"
  trGotoReviews :: "string + page"

definition hrefOf :: "node \<Rightarrow> string" where
  "hrefOf n = (case getAttribute n ''href'' of Some h \<Rightarrow> h | None \<Rightarrow> [])"

definition notFoundIndicator :: "document \<Rightarrow> bool" where
  "notFoundIndicator d =
     (includesStr (docTitle d) ''Page Not Found''
      \<or> querySelector (root d) ''.not-found-message'' \<noteq> None)"

definition trFoundProductUrl :: "document \<Rightarrow> string \<Rightarrow> string option" where
  "trFoundProductUrl d companyName =
     (let productLinks = querySelectorAll (root d) ''.product-card a, .search-result-item a'';
          matchingLink =
            find (\<lambda>link. includesStr (toLowerCase (textContent link)) (toLowerCase companyName))
              productLinks
      in case matchingLink of Some l \<Rightarrow> Some (hrefOf l) | None \<Rightarrow> None)"

definition notFoundMessage :: "string \<Rightarrow> string \<Rightarrow> string" where
  "notFoundMessage companyName site =
     ''Company '' @ [dq] @ companyName @ [dq] @ '' not found on '' @ site"

definition trFinish :: "env \<Rightarrow> jsdate \<Rightarrow> jsdate \<Rightarrow> nat \<Rightarrow> page \<Rightarrow> result" where
  "trFinish e startDate endDate maxPages p =
     Success (filterReviews e startDate endDate
                (allReviews (trLoop e maxPages (initialState p)))) None"

definition trTry ::
  "trWorld \<Rightarrow> env \<Rightarrow> string \<Rightarrow> jsdate \<Rightarrow> jsdate \<Rightarrow> nat \<Rightarrow> string + result" where
  "trTry w e companyName startDate endDate maxPages =
     (case trGotoProduct w of
        Inl err \<Rightarrow> Inl err
      | Inr d \<Rightarrow>
          if notFoundIndicator d then
            (case trGotoSearch w of
               Inl err \<Rightarrow> Inl err
             | Inr sd \<Rightarrow>
                 (case trFoundProductUrl sd companyName of
                    None \<Rightarrow>
                      Inr (Failure (notFoundMessage companyName ''TrustRadius''))
                  | Some foundProductUrl \<Rightarrow>
                      if foundProductUrl = [] then
                        Inr (Failure (notFoundMessage companyName ''TrustRadius''))
                      else
                        (case trGotoFound w of
                           Some err \<Rightarrow> Inl err
                         | None \<Rightarrow>
                             (case trGotoReviews w of
                                Inl err \<Rightarrow> Inl err
                              | Inr p \<Rightarrow> Inr (trFinish e startDate endDate maxPages p)))))
          else
            (case trGotoReviews w of
               Inl err \<Rightarrow> Inl err
             | Inr p \<Rightarrow> Inr (trFinish e startDate endDate maxPages p)))"

definition scrapeTrustRadiusReviews ::
  "trWorld \<Rightarrow> env \<Rightarrow> string \<Rightarrow> jsdate \<Rightarrow> jsdate \<Rightarrow> nat \<Rightarrow> exn + result" where
  "scrapeTrustRadiusReviews w e companyName startDate endDate maxPages =
     (case trLaunch w of
        Some err \<Rightarrow> Inl (Exn ''Error'' err)
      | None \<Rightarrow>
          (case trTry w e companyName startDate endDate maxPages of
             Inl err \<Rightarrow> Inr (Failure err)
           | Inr r \<Rightarrow> Inr r))"

section \<open>scrapeCapterraReviews\<close>

record capWorld =
  capLaunch :: "string option"
  capGotoSearch :: "string + document"
  capGotoReviews :: "string + page"

definition capProductFound :: "document \<Rightarrow> string \<Rightarrow> string option" where
  "capProductFound d companyName =
     (let products = querySelectorAll (root d) ''.product-card'';
          matchingProduct =
            find (\<lambda>product.
                    case querySelector product ''.product-card__product-name'' of
                      None \<Rightarrow> False
                    | Some n \<Rightarrow>
                        (let productName = trim (innerText n)
                         in productName \<noteq> []
                            \<and> includesStr (toLowerCase productName) (toLowerCase companyName)))
              products
      in case matchingProduct of
           Some m \<Rightarrow>
             (case querySelector m (''a[href*='' @ [dq] @ ''reviews'' @ [dq] @ '']'') of
                Some reviewsLink \<Rightarrow> Some (hrefOf reviewsLink)
              | None \<Rightarrow> None)
         | None \<Rightarrow> None)"

definition capFinish :: "env \<Rightarrow> jsdate \<Rightarrow> jsdate \<Rightarrow> nat \<Rightarrow> page \<Rightarrow> result" where
  "capFinish e startDate endDate maxPages p =
     Success (filterReviews e startDate endDate
                (allReviews (capLoop e maxPages (initialState p)))) None"

definition capTry ::
  "capWorld \<Rightarrow> env \<Rightarrow> string \<Rightarrow> jsdate \<Rightarrow> jsdate \<Rightarrow> nat \<Rightarrow> string + result" where
  "capTry w e companyName startDate endDate maxPages =
     (case capGotoSearch w of
        Inl err \<Rightarrow> Inl err
      | Inr d \<Rightarrow>
          (case capProductFound d companyName of
             None \<Rightarrow>
               Inr (Failure (notFoundMessage companyName ''Capterra''))
           | Some productFound \<Rightarrow>
               if productFound = [] then
                 Inr (Failure (notFoundMessage companyName ''Capterra''))
               else
                 (case capGotoReviews w of
                    Inl err \<Rightarrow> Inl err
                  | Inr p \<Rightarrow> Inr (capFinish e startDate endDate maxPages p))))"

definition scrapeCapterraReviews ::
  "capWorld \<Rightarrow> env \<Rightarrow> string \<Rightarrow> jsdate \<Rightarrow> jsdate \<Rightarrow> nat \<Rightarrow> exn + result" where
  "scrapeCapterraReviews w e companyName startDate endDate maxPages =
     (case capLaunch w of
        Some err \<Rightarrow> Inl (Exn ''Error'' err)
      | None \<Rightarrow>
          (case capTry w e companyName startDate endDate maxPages of
             Inl err \<Rightarrow> Inr (Failure err)
           | Inr r \<Rightarrow> Inr r))"

section \<open>scrapeG2Reviews\<close>

text \<open>
  The first statement logs \<open>startDate.toISOString()\<close> and \<open>endDate.toISOString()\<close>, which
  throw a RangeError on a Date whose time value is NaN. The constant \<open>useMockData\<close> is
  \<open>true\<close> in the source; what the function does past the \<open>if (useMockData)\<close> block (the
  browser session) is the parameter \<open>live\<close>.
\<close>

definition mockData :: "review list" where
  "mockData =
     [\<lparr>title = ''Great Team Collaboration Tool'',
       description = ''Slack has transformed how our team communicates. The channels keep topics organized and the integrations with other tools make it a central hub for notifications.'',
       date = ''June 15, 2025'', rating = Num 4.5,
       reviewer = \<lparr>name = ''John D.'', info = ''Mid-Market (51-1000 emp.)''\<rparr>,
       source = ''G2 (Demo Data)''\<rparr>,
      \<lparr>title = ''Efficient Communication Platform'',
       description = ''We switched from email to Slack for internal communications and have seen dramatic improvements in response time and team coordination.'',
       date = ''May 22, 2025'', rating = Num 5,
       reviewer = \<lparr>name = ''Sarah M.'', info = ''Enterprise (>1000 emp.)''\<rparr>,
       source = ''G2 (Demo Data)''\<rparr>,
      \<lparr>title = ''Good but Has Limitations'',
       description = ''Slack works well for quick communications but can get messy with too many channels. Search functionality could be improved to find older messages more easily.'',
       date = ''April 3, 2025'', rating = Num 3.5,
       reviewer = \<lparr>name = ''Robert L.'', info = ''Small Business (<50 emp.)''\<rparr>,
       source = ''G2 (Demo Data)''\<rparr>,
      \<lparr>title = ''Essential Remote Working Tool'',
       description = ''Since our team went remote, Slack has been crucial for maintaining culture and communication. The video calls and screen sharing features work well for quick meetings.'',
       date = ''March 17, 2025'', rating = Num 4,
       reviewer = \<lparr>name = ''Emily K.'', info = ''Mid-Market (51-1000 emp.)''\<rparr>,
       source = ''G2 (Demo Data)''\<rparr>,
      \<lparr>title = ''Great Integrations'',
       description = ''The ability to integrate with so many other tools makes Slack incredibly powerful. We use it with GitHub, Jira, and Google Drive which streamlines our workflow.'',
       date = ''February 8, 2025'', rating = Num 5,
       reviewer = \<lparr>name = ''Michael W.'', info = ''Enterprise (>1000 emp.)''\<rparr>,
       source = ''G2 (Demo Data)''\<rparr>]"

definition useMockData :: bool where
  "useMockData = True"

definition g2Note :: string where
  "g2Note = ''Using demo data as G2 is currently blocking web scrapers. In a production environment, you would need to implement more advanced scraping techniques or use an official API.''"

definition scrapeG2Reviews ::
  "(exn + result) \<Rightarrow> env \<Rightarrow> string \<Rightarrow> jsdate \<Rightarrow> jsdate \<Rightarrow> nat \<Rightarrow> exn + result" where
  "scrapeG2Reviews live e companyName startDate endDate maxPages =
     (if startDate = InvalidDate \<or> endDate = InvalidDate
      then Inl (Exn ''RangeError'' ''Invalid time value'')
      else if useMockData
        then Inr (Success (filter (inRange e startDate endDate) mockData) (Some g2Note))
        else live)"

section \<open>The try statement of the review route\<close>

text \<open>
  The handler of \<open>/scrape-reviews\<close> calls the scraper of the requested source, with the
  default page cap, inside a \<open>try\<close> whose \<open>catch\<close> answers with status 500. The
  world of a request has the worlds of the scrapers and the outcome of \<open>fs.writeFile\<close>.
\<close>

datatype body = ErrorBody string | FailBody string | OkBody "review list" nat

datatype response = Response nat body

record world =
  trW :: trWorld
  capW :: capWorld
  g2Live :: "exn + result"
  writeFileErr :: "string option"

definition respond :: "world \<Rightarrow> string \<Rightarrow> string \<Rightarrow> exn + result \<Rightarrow> exn + response" where
  "respond w companyName sourceLower r =
     (case r of
        Inl x \<Rightarrow> Inl x
      | Inr (Failure err) \<Rightarrow> Inr (Response 500 (FailBody err))
      | Inr (Success d n) \<Rightarrow>
          if d = [] then
            Inr (Response 404
                  (FailBody (''No reviews found for '' @ companyName @ '' on '' @ sourceLower
                     @ ''. Please check the company name or try a different date range.'')))
          else
            (case writeFileErr w of
               Some err \<Rightarrow> Inl (Exn ''Error'' err)
             | None \<Rightarrow> Inr (Response 200 (OkBody d (length d)))))"

definition reviewsTry ::
  "world \<Rightarrow> env \<Rightarrow> string \<Rightarrow> jsdate \<Rightarrow> jsdate \<Rightarrow> string \<Rightarrow> exn + response" where
  "reviewsTry w e companyName parsedStartDate parsedEndDate src =
     (let sourceLower = toLowerCase src in
      if sourceLower = ''g2'' then
        respond w companyName sourceLower
          (scrapeG2Reviews (g2Live w) e companyName parsedStartDate parsedEndDate 10)
      else if sourceLower = ''capterra'' then
        respond w companyName sourceLower
          (scrapeCapterraReviews (capW w) e companyName parsedStartDate parsedEndDate 10)
      else if sourceLower = ''trustradius'' then
        respond w companyName sourceLower
          (scrapeTrustRadiusReviews (trW w) e companyName parsedStartDate parsedEndDate 10)
      else Inr (Response 400 (ErrorBody ''Invalid source. Choose g2, capterra, or trustradius'')))"

definition reviewsTryCatch ::
  "world \<Rightarrow> env \<Rightarrow> string \<Rightarrow> jsdate \<Rightarrow> jsdate \<Rightarrow> string \<Rightarrow> exn + response" where
  "reviewsTryCatch w e companyName parsedStartDate parsedEndDate src =
     (case reviewsTry w e companyName parsedStartDate parsedEndDate src of
        Inl x \<Rightarrow> Inr (Response 500 (FailBody (message x)))
      | Inr r \<Rightarrow> Inr r)"

section \<open>Pages visited by the loop\<close>

text \<open>
  For stating what the loop accumulates: \<open>visited nextSel k p\<close> lists the pages a loop
  with room for \<open>k\<close> more extractions extracts from page \<open>p\<close> on; \<open>chain\<close> builds a
  site from the documents of its pages and what the click on the last page does.
\<close>

fun visited :: "string \<Rightarrow> nat \<Rightarrow> page \<Rightarrow> page list" where
  "visited nextSel 0 p = []"
| "visited nextSel (Suc n) p =
     p # (if querySelector (root (pageDoc p)) nextSel \<noteq> None \<and> 0 < n
          then (case clickNext p of Inl err \<Rightarrow> [] | Inr p' \<Rightarrow> visited nextSel n p')
          else [])"

definition docReviews :: "string \<Rightarrow> (node \<Rightarrow> review) \<Rightarrow> document \<Rightarrow> review list" where
  "docReviews containerSel extract d = map extract (querySelectorAll (root d) containerSel)"

definition pageReviews :: "string \<Rightarrow> (node \<Rightarrow> review) \<Rightarrow> page \<Rightarrow> review list" where
  "pageReviews containerSel extract p = docReviews containerSel extract (pageDoc p)"

definition hasNextControl :: "string \<Rightarrow> document \<Rightarrow> bool" where
  "hasNextControl nextSel d = (querySelector (root d) nextSel \<noteq> None)"

fun chain :: "document \<Rightarrow> document list \<Rightarrow> string + page \<Rightarrow> page" where
  "chain d [] t = Page d t"
| "chain d (d' # ds) t = Page d (Inr (chain d' ds t))"

definition trReviews :: "env \<Rightarrow> document \<Rightarrow> review list" where
  "trReviews e = docReviews ''.review-card, .review-container'' (extractTrustRadius e)"

definition capReviews :: "env \<Rightarrow> document \<Rightarrow> review list" where
  "capReviews e = docReviews ''.review'' (extractCapterra e)"

section \<open>Concrete hosts, pages and worlds\<close>

text \<open>
  The values on which the theorems are instantiated: a host at a fixed offset from UTC
  whose native parser accepts only date-only ISO strings, review containers with a title
  and a date, documents with and without a next control, and worlds of the scrapers.
\<close>

definition demoEnv :: "int \<Rightarrow> env" where
  "demoEnv tz =
     \<lparr>hostParse = (\<lambda>s. None), nowMs = 1762128000000, tzaUTC = (\<lambda>t. tz), tzaLocal = (\<lambda>t. tz),
      hostParseFloat = (\<lambda>s. NaN)\<rparr>"

definition textNode :: "string \<Rightarrow> node" where
  "textNode s = Node s s [] []"

definition demoReview :: "string \<Rightarrow> string \<Rightarrow> node" where
  "demoReview t d =
     Node [] [] []
       [(''.review-title, .review-heading'', [textNode t]), (''.review__title'', [textNode t]),
        (''.review-date'', [textNode d])]"

definition demoDoc :: "node list \<Rightarrow> bool \<Rightarrow> document" where
  "demoDoc reviews next =
     \<lparr>docTitle = ''Reviews'',
      root = Node [] [] []
        ([(''.review-card, .review-container'', reviews), (''.review'', reviews)]
         @ (if next then [(trNextSel, [textNode ''Next'']), (capNextSel, [textNode ''Next''])]
            else []))\<rparr>"

definition demoSite :: "string + page \<Rightarrow> page" where
  "demoSite t =
     chain (demoDoc [demoReview ''Review 1'' ''June 15, 2025''] True)
       [demoDoc [demoReview ''Review 2'' ''someday''] True,
        demoDoc [demoReview ''Review 3'' ''May 1, 2025''] True,
        demoDoc [demoReview ''Review 4'' ''April 1, 2025''] True,
        demoDoc [demoReview ''Review 5'' ''March 1, 2025''] False] t"

definition demoTrWorld :: "page \<Rightarrow> trWorld" where
  "demoTrWorld p =
     \<lparr>trLaunch = None, trGotoProduct = Inr (demoDoc [] False), trGotoSearch = Inl ''unused'',
      trGotoFound = None, trGotoReviews = Inr p\<rparr>"

definition demoSearchDoc :: document where
  "demoSearchDoc =
     \<lparr>docTitle = ''Search'',
      root = Node [] [] []
        [(''.product-card'',
          [Node [] [] []
             [(''.product-card__product-name'', [textNode ''Slack '']),
              (''a[href*='' @ [dq] @ ''reviews'' @ [dq] @ '']'',
               [Node ''Reviews'' ''Reviews'' [(''href'', ''https://www.capterra.com/p/slack/reviews'')] []])]])]\<rparr>"

definition demoCapWorld :: "page \<Rightarrow> capWorld" where
  "demoCapWorld p = \<lparr>capLaunch = None, capGotoSearch = Inr demoSearchDoc, capGotoReviews = Inr p\<rparr>"

definition demoNotFoundDoc :: document where
  "demoNotFoundDoc = \<lparr>docTitle = ''Page Not Found | TrustRadius'', root = Node [] [] [] []\<rparr>"

definition demoTrSearchDoc :: document where
  "demoTrSearchDoc =
     \<lparr>docTitle = ''Search'',
      root = Node [] [] []
        [(''.product-card a, .search-result-item a'',
          [Node ''Zoom'' ''Zoom'' [(''href'', ''https://www.trustradius.com/products/zoom'')] [],
           Node ''Slack'' ''Slack Reviews''
             [(''href'', ''https://www.trustradius.com/products/slack'')] []])]\<rparr>"

definition demoTrSearchWorld :: "page \<Rightarrow> trWorld" where
  "demoTrSearchWorld p =
     \<lparr>trLaunch = None, trGotoProduct = Inr demoNotFoundDoc, trGotoSearch = Inr demoTrSearchDoc,
      trGotoFound = None, trGotoReviews = Inr p\<rparr>"

definition demoSite2 :: page where
  "demoSite2 =
     chain (demoDoc [demoReview ''Review 1'' ''June 15, 2025''] True)
       [demoDoc [demoReview ''Review 2'' ''someday''] True] (Inl ''Navigation timeout'')"

definition titlesOf :: "exn + result \<Rightarrow> string list option" where
  "titlesOf r = (case r of Inr (Success d n) \<Rightarrow> Some (map title d) | _ \<Rightarrow> None)"


definition demoFailWorld :: trWorld where
  "demoFailWorld =
     \<lparr>trLaunch = None, trGotoProduct = Inl ''net::ERR_NAME_NOT_RESOLVED'',
      trGotoSearch = Inl ''unused'', trGotoFound = None, trGotoReviews = Inl ''unused''\<rparr>"

definition demoCapFailWorld :: capWorld where
  "demoCapFailWorld =
     \<lparr>capLaunch = None,
      capGotoSearch = Inr \<lparr>docTitle = ''Search'', root = Node [] [] [] []\<rparr>,
      capGotoReviews = Inl ''unused''\<rparr>"

definition demoWorld :: world where
  "demoWorld =
     \<lparr>trW = demoFailWorld\<lparr>trLaunch := Some ''Failed to launch the browser process''\<rparr>,
      capW = demoCapFailWorld, g2Live = Inl (Exn ''Error'' ''unreachable''),
      writeFileErr = None\<rparr>"

text \<open>A review container whose title and reviewer elements are present with blank text.\<close>

definition blankReview :: node where
  "blankReview =
     Node [] [] []
       [(''.review-title, .review-heading'', [textNode ''  '']),
        (''.review__title'', [textNode []]),
        (''.reviewer-name, .user-info'', [textNode []]),
        (''.reviewer-name'', [textNode '' ''])]"

section \<open>Properties of isDateInRange\<close>

text \<open>
  Claim C5. For Date objects with time values \<open>d\<close>, \<open>s\<close> and \<open>e\<close>,
  \<open>isDateInRange\<close> is true exactly when \<open>s \<le> d\<close> and \<open>d \<le> e\<close>; a date equal to the
  start bound or to the end bound of a range with \<open>s \<le> e\<close> is in the range.
\<close>

theorem isDateInRange_iff:
  "isDateInRange (Some (DateMs d)) (Some (DateMs s)) (Some (DateMs e)) = (s \<le> d \<and> d \<le> e)
   \<and> isDateInRange (Some (DateMs s)) (Some (DateMs s)) (Some (DateMs e)) = (s \<le> e)
   \<and> isDateInRange (Some (DateMs e)) (Some (DateMs s)) (Some (DateMs e)) = (s \<le> e)"
  by simp


section \<open>Properties of the pagination loop\<close>

lemma length_visited: "length (visited nextSel n p) \<le> n"
  by (induction n arbitrary: p) (auto split: sum.splits)

lemma scrapeLoop_stop:
  assumes "\<not> (hasNextPage st \<and> currentPage st \<le> maxPages)"
  shows "scrapeLoop c x n maxPages st = st"
  by (subst scrapeLoop.simps, rule if_not_P, rule assms)

lemma scrapeLoop_step:
  assumes "hasNextPage st" "currentPage st \<le> maxPages"
  shows "scrapeLoop c x n maxPages st =
     (let st1 = st\<lparr>allReviews := allReviews st @ pageReviews c x (page st),
                      extractions := extractions st + 1\<rparr>
      in if querySelector (root (pageDoc (page st))) n \<noteq> None \<and> currentPage st < maxPages then
           (case clickNext (page st) of
              Inl err \<Rightarrow>
                scrapeLoop c x n maxPages
                  (st1\<lparr>hasNextPage := False, currentPage := currentPage st + 1\<rparr>)
            | Inr p \<Rightarrow>
                scrapeLoop c x n maxPages
                  (st1\<lparr>page := p, hasNextPage := True, currentPage := currentPage st + 1\<rparr>))
         else scrapeLoop c x n maxPages (st1\<lparr>hasNextPage := False\<rparr>))"
  using assms unfolding pageReviews_def docReviews_def
  by (subst scrapeLoop.simps) (simp only: simp_thms if_True Let_def)

lemma scrapeLoop_visited:
  "hasNextPage st \<Longrightarrow> currentPage st \<le> maxPages \<Longrightarrow>
   allReviews (scrapeLoop c x n maxPages st) =
     allReviews st @ concat (map (pageReviews c x) (visited n (Suc maxPages - currentPage st) (page st)))
   \<and> extractions (scrapeLoop c x n maxPages st) =
     extractions st + length (visited n (Suc maxPages - currentPage st) (page st))"
proof (induction c x n maxPages st rule: scrapeLoop.induct)
  case (1 c x n maxPages st)
  define k where "k = maxPages - currentPage st"
  have k: "Suc maxPages - currentPage st = Suc k" using "1.prems" unfolding k_def by simp
  define st1 where "st1 = st\<lparr>allReviews := allReviews st @ pageReviews c x (page st),
                      extractions := extractions st + 1\<rparr>"
  define hn where "hn = (querySelector (root (pageDoc (page st))) n \<noteq> None)"
  note step = scrapeLoop_step [OF "1.prems", of c x n, folded st1_def hn_def, unfolded Let_def]
  show ?case
  proof (cases "hn \<and> currentPage st < maxPages")
    case False
    have "scrapeLoop c x n maxPages st = scrapeLoop c x n maxPages (st1\<lparr>hasNextPage := False\<rparr>)"
      unfolding step using False by (simp only: simp_thms if_False)
    also have "\<dots> = st1\<lparr>hasNextPage := False\<rparr>" by (rule scrapeLoop_stop) simp
    finally have eq: "scrapeLoop c x n maxPages st = st1\<lparr>hasNextPage := False\<rparr>" .
    have "k = 0 \<or> \<not> hn" using False "1.prems" unfolding k_def by auto
    then have v: "visited n (Suc k) (page st) = [page st]" unfolding hn_def by auto
    show ?thesis unfolding eq k v by (simp add: st1_def)
  next
    case True
    then have kpos: "0 < k" unfolding k_def by simp
    show ?thesis
    proof (cases "clickNext (page st)")
      case (Inl err)
      have "scrapeLoop c x n maxPages st =
          scrapeLoop c x n maxPages (st1\<lparr>hasNextPage := False, currentPage := currentPage st + 1\<rparr>)"
        unfolding step using True Inl by (simp only: simp_thms if_True sum.case)
      also have "\<dots> = st1\<lparr>hasNextPage := False, currentPage := currentPage st + 1\<rparr>"
        by (rule scrapeLoop_stop) simp
      finally have eq: "scrapeLoop c x n maxPages st =
          st1\<lparr>hasNextPage := False, currentPage := currentPage st + 1\<rparr>" .
      have v: "visited n (Suc k) (page st) = [page st]" using Inl by simp
      show ?thesis unfolding eq k v by (simp add: st1_def)
    next
      case (Inr p)
      define st2 where "st2 = st1\<lparr>page := p, hasNextPage := True, currentPage := currentPage st + 1\<rparr>"
      have eq: "scrapeLoop c x n maxPages st = scrapeLoop c x n maxPages st2"
        unfolding step st2_def using True Inr by (simp only: simp_thms if_True sum.case)
      have ih: "allReviews (scrapeLoop c x n maxPages st2) =
          allReviews st2 @ concat (map (pageReviews c x) (visited n (Suc maxPages - currentPage st2) (page st2)))
          \<and> extractions (scrapeLoop c x n maxPages st2) =
          extractions st2 + length (visited n (Suc maxPages - currentPage st2) (page st2))"
        using "1.IH"(2) [OF _ refl refl refl _ Inr] "1.prems" True
        unfolding st2_def st1_def hn_def pageReviews_def docReviews_def by simp
      have k2: "Suc maxPages - currentPage st2 = k" unfolding st2_def st1_def k_def using True by simp
      have v: "visited n (Suc k) (page st) = page st # visited n k p"
        using True kpos Inr unfolding hn_def by simp
      show ?thesis unfolding eq k v using ih unfolding k2 by (simp add: st2_def st1_def)
    qed
  qed
qed


lemma scrapeLoop_initial:
  "allReviews (scrapeLoop c x n maxPages (initialState p)) =
     concat (map (pageReviews c x) (visited n maxPages p))
   \<and> extractions (scrapeLoop c x n maxPages (initialState p)) = length (visited n maxPages p)"
proof (cases maxPages)
  case 0
  then show ?thesis
    using scrapeLoop_stop [of "initialState p" 0 c x n] by (simp add: initialState_def)
next
  case (Suc k)
  then show ?thesis
    using scrapeLoop_visited [of "initialState p" maxPages c x n]
    by (simp add: initialState_def)
qed

lemma visited_chain_fail:
  "\<forall>x \<in> set (d # ds). hasNextControl n x \<Longrightarrow> length (d # ds) < m \<Longrightarrow>
   map pageDoc (visited n m (chain d ds (Inl err))) = d # ds"
proof (induction ds arbitrary: d m)
  case Nil
  then show ?case by (cases m) (simp_all add: hasNextControl_def)
next
  case (Cons a ds)
  from Cons.prems obtain k where m: "m = Suc k" and k: "length (a # ds) < k"
    by (cases m) auto
  have "map pageDoc (visited n k (chain a ds (Inl err))) = a # ds"
    using Cons.IH [of a k] Cons.prems k by simp
  then show ?case using Cons.prems k unfolding m by (simp add: hasNextControl_def)
qed

lemma concat_pageReviews:
  "concat (map (pageReviews c x) ps) = concat (map (docReviews c x) (map pageDoc ps))"
  by (induction ps) (simp_all add: pageReviews_def)

lemma demo_next: "hasNextControl trNextSel (demoDoc rs True) \<and> hasNextControl capNextSel (demoDoc rs True)"
  by (simp add: hasNextControl_def demoDoc_def querySelector_def querySelectorAll_def trNextSel_def capNextSel_def)

lemma demo_tr: "map title (trReviews e (demoDoc [demoReview t d] b)) = [trim t]"
  by (simp add: trReviews_def docReviews_def demoDoc_def demoReview_def querySelector_def
      querySelectorAll_def extractTrustRadius_def Let_def trimmedText_def textNode_def)

lemma demo_cap: "map title (capReviews e (demoDoc [demoReview t d] b)) = [trim t]"
  by (simp add: capReviews_def docReviews_def demoDoc_def demoReview_def querySelector_def
      querySelectorAll_def extractCapterra_def Let_def trimmedText_def textNode_def)

text \<open>
  Claim C3. A run of the TrustRadius or the Capterra loop with page cap \<open>maxPages\<close>
  performs at most \<open>maxPages\<close> page extractions on every site. On a site of five pages
  whose first page shows a next control, a run with cap 2 performs exactly two extractions
  and accumulates the reviews of page 1 followed by those of page 2, whatever controls the
  later pages show.
\<close>

theorem page_cap_respected:
  assumes "hasNextControl trNextSel d1" and "hasNextControl capNextSel c1"
  shows "extractions (trLoop e maxPages (initialState p)) \<le> maxPages
    \<and> extractions (capLoop e maxPages (initialState p)) \<le> maxPages
    \<and> extractions (trLoop e 2 (initialState (chain d1 [d2, d3, d4, d5] t))) = 2
    \<and> allReviews (trLoop e 2 (initialState (chain d1 [d2, d3, d4, d5] t)))
        = trReviews e d1 @ trReviews e d2
    \<and> extractions (capLoop e 2 (initialState (chain c1 [c2, c3, c4, c5] t))) = 2
    \<and> allReviews (capLoop e 2 (initialState (chain c1 [c2, c3, c4, c5] t)))
        = capReviews e c1 @ capReviews e c2"
proof -
  have two: "(2::nat) = Suc (Suc 0)" by simp
  have v: "hasNextControl n x1 \<Longrightarrow>
      visited n 2 (chain x1 [x2, x3, x4, x5] t) = [chain x1 [x2, x3, x4, x5] t, chain x2 [x3, x4, x5] t]"
    for n x1 x2 x3 x4 x5
    unfolding two by (simp add: hasNextControl_def)
  show ?thesis
    unfolding trLoop_def capLoop_def trReviews_def capReviews_def
    using length_visited [of trNextSel maxPages p] length_visited [of capNextSel maxPages p]
      v [OF assms(1)] v [OF assms(2)]
    by (simp add: scrapeLoop_initial pageReviews_def)
qed

theorem page_cap_respected_witness:
  "hasNextControl trNextSel (demoDoc [demoReview ''Review 1'' ''June 15, 2025''] True)
   \<and> hasNextControl capNextSel (demoDoc [demoReview ''Review 1'' ''June 15, 2025''] True)
   \<and> extractions (trLoop (demoEnv 0) 2 (initialState (demoSite (Inl ''timeout'')))) = 2
   \<and> map title (allReviews (trLoop (demoEnv 0) 2 (initialState (demoSite (Inl ''timeout'')))))
        = [''Review 1'', ''Review 2'']
   \<and> map title (allReviews (capLoop (demoEnv 0) 2 (initialState (demoSite (Inl ''timeout'')))))
        = [''Review 1'', ''Review 2'']"
proof -
  have h: "hasNextControl trNextSel (demoDoc [demoReview ''Review 1'' ''June 15, 2025''] True)"
    "hasNextControl capNextSel (demoDoc [demoReview ''Review 1'' ''June 15, 2025''] True)"
    using demo_next by simp_all
  have t: "trim ''Review 1'' = ''Review 1''" "trim ''Review 2'' = ''Review 2''"
    by (simp_all add: trim_def isSpace_def code_def)
  show ?thesis
    using h page_cap_respected [OF h, of "demoEnv 0" 0 "demoSite (Inl ''timeout'')"
        "demoDoc [demoReview ''Review 2'' ''someday''] True"
        "demoDoc [demoReview ''Review 3'' ''May 1, 2025''] True"
        "demoDoc [demoReview ''Review 4'' ''April 1, 2025''] True"
        "demoDoc [demoReview ''Review 5'' ''March 1, 2025''] False" "Inl ''timeout''"
        "demoDoc [demoReview ''Review 2'' ''someday''] True"
        "demoDoc [demoReview ''Review 3'' ''May 1, 2025''] True"
        "demoDoc [demoReview ''Review 4'' ''April 1, 2025''] True"
        "demoDoc [demoReview ''Review 5'' ''March 1, 2025''] False"]
    unfolding demoSite_def [symmetric]
    by (simp add: demo_tr demo_cap t)
qed

text \<open>
  Claim C4. Let the TrustRadius scraper reach the review pages, by the direct product
  page or by the search fallback, and the Capterra scraper by its search. On a site of
  \<open>k\<close> pages that all show a next control, with \<open>k\<close> below the page cap, where the
  navigation from page \<open>k\<close> throws, both scrapers return a success result: the date
  filter applied to the reviews of the pages 1 to \<open>k\<close>, in page order.
\<close>

theorem navigation_failure_partial:
  assumes "\<forall>x \<in> set (d # ds). hasNextControl trNextSel x" and "length (d # ds) < maxPages"
    and "trLaunch w = None" and "trGotoProduct w = Inr d0"
    and "\<not> notFoundIndicator d0
         \<or> (trGotoSearch w = Inr sd \<and> trFoundProductUrl sd companyName = Some u \<and> u \<noteq> []
            \<and> trGotoFound w = None)"
    and "trGotoReviews w = Inr (chain d ds (Inl err))"
    and "\<forall>x \<in> set (d' # ds'). hasNextControl capNextSel x" and "length (d' # ds') < maxPages'"
    and "capLaunch w' = None" and "capGotoSearch w' = Inr sd'"
    and "capProductFound sd' companyName = Some url" and "url \<noteq> []"
    and "capGotoReviews w' = Inr (chain d' ds' (Inl err'))"
  shows "scrapeTrustRadiusReviews w e companyName startDate endDate maxPages =
      Inr (Success (filterReviews e startDate endDate (concat (map (trReviews e) (d # ds)))) None)
    \<and> scrapeCapterraReviews w' e companyName startDate endDate maxPages' =
      Inr (Success (filterReviews e startDate endDate (concat (map (capReviews e) (d' # ds')))) None)"
proof -
  have a: "allReviews (trLoop e maxPages (initialState (chain d ds (Inl err)))) =
      concat (map (trReviews e) (d # ds))"
    unfolding trLoop_def trReviews_def
    by (simp only: scrapeLoop_initial concat_pageReviews visited_chain_fail [OF assms(1,2)])
  have b: "allReviews (capLoop e maxPages' (initialState (chain d' ds' (Inl err')))) =
      concat (map (capReviews e) (d' # ds'))"
    unfolding capLoop_def capReviews_def
    by (simp only: scrapeLoop_initial concat_pageReviews visited_chain_fail [OF assms(7,8)])
  have tr: "trTry w e companyName startDate endDate maxPages =
      Inr (trFinish e startDate endDate maxPages (chain d ds (Inl err)))"
  proof (cases "notFoundIndicator d0")
    case False
    then show ?thesis using assms(4,6) by (simp add: trTry_def)
  next
    case True
    with assms(5) have "trGotoSearch w = Inr sd" "trFoundProductUrl sd companyName = Some u"
      "u \<noteq> []" "trGotoFound w = None" by simp_all
    then show ?thesis using True assms(4,6) by (simp add: trTry_def)
  qed
  show ?thesis
    using assms(3,9-13) a b tr
    by (simp add: scrapeTrustRadiusReviews_def trFinish_def
        scrapeCapterraReviews_def capTry_def capFinish_def)
qed

theorem navigation_failure_partial_witness:
  "titlesOf (scrapeTrustRadiusReviews (demoTrWorld demoSite2) (demoEnv 0) ''Slack''
      (DateMs 1735689600000) (DateMs 1751241600000) 10) = Some [''Review 1'']
   \<and> titlesOf (scrapeTrustRadiusReviews (demoTrSearchWorld demoSite2) (demoEnv 0) ''Slack''
      (DateMs 1735689600000) (DateMs 1751241600000) 10) = Some [''Review 1'']
   \<and> titlesOf (scrapeCapterraReviews (demoCapWorld demoSite2) (demoEnv 0) ''Slack''
      (DateMs 1735689600000) (DateMs 1751241600000) 10) = Some [''Review 1'']"
proof -
  have n: "\<forall>x \<in> set [demoDoc [demoReview ''Review 1'' ''June 15, 2025''] True,
        demoDoc [demoReview ''Review 2'' ''someday''] True]. hasNextControl trNextSel x"
    "\<forall>x \<in> set [demoDoc [demoReview ''Review 1'' ''June 15, 2025''] True,
        demoDoc [demoReview ''Review 2'' ''someday''] True]. hasNextControl capNextSel x"
    using demo_next by simp_all
  have f: "capProductFound demoSearchDoc ''Slack'' = Some ''https://www.capterra.com/p/slack/reviews''"
    by code_simp
  have nf: "\<not> notFoundIndicator (demoDoc [] False)"
    by code_simp
  have direct: "\<not> notFoundIndicator (demoDoc [] False)
      \<or> (trGotoSearch (demoTrWorld demoSite2) = Inr demoTrSearchDoc
         \<and> trFoundProductUrl demoTrSearchDoc ''Slack''
             = Some ''https://www.trustradius.com/products/slack'' \<and>
         ''https://www.trustradius.com/products/slack'' \<noteq> []
         \<and> trGotoFound (demoTrWorld demoSite2) = None)"
    using nf by simp
  have yf: "notFoundIndicator demoNotFoundDoc"
    by code_simp
  have fu: "trFoundProductUrl demoTrSearchDoc ''Slack''
      = Some ''https://www.trustradius.com/products/slack''"
    by code_simp
  have search: "\<not> notFoundIndicator demoNotFoundDoc
      \<or> (trGotoSearch (demoTrSearchWorld demoSite2) = Inr demoTrSearchDoc
         \<and> trFoundProductUrl demoTrSearchDoc ''Slack''
             = Some ''https://www.trustradius.com/products/slack'' \<and>
         ''https://www.trustradius.com/products/slack'' \<noteq> []
         \<and> trGotoFound (demoTrSearchWorld demoSite2) = None)"
    using fu by (simp add: demoTrSearchWorld_def)
  have t: "titlesOf (Inr (Success (filterReviews (demoEnv 0) (DateMs 1735689600000) (DateMs 1751241600000)
       (concat (map (trReviews (demoEnv 0)) [demoDoc [demoReview ''Review 1'' ''June 15, 2025''] True,
        demoDoc [demoReview ''Review 2'' ''someday''] True]))) None)) = Some [''Review 1'']"
    by code_simp
  have c: "titlesOf (Inr (Success (filterReviews (demoEnv 0) (DateMs 1735689600000) (DateMs 1751241600000)
       (concat (map (capReviews (demoEnv 0)) [demoDoc [demoReview ''Review 1'' ''June 15, 2025''] True,
        demoDoc [demoReview ''Review 2'' ''someday''] True]))) None)) = Some [''Review 1'']"
    by code_simp
  have cw: "capLaunch (demoCapWorld demoSite2) = None"
    "capGotoSearch (demoCapWorld demoSite2) = Inr demoSearchDoc"
    "capGotoReviews (demoCapWorld demoSite2)
      = Inr (chain (demoDoc [demoReview ''Review 1'' ''June 15, 2025''] True)
          [demoDoc [demoReview ''Review 2'' ''someday''] True] (Inl ''Navigation timeout''))"
    by (simp_all add: demoCapWorld_def demoSite2_def)
  have l10: "length [demoDoc [demoReview ''Review 1'' ''June 15, 2025''] True,
        demoDoc [demoReview ''Review 2'' ''someday''] True] < (10::nat)"
    by simp
  have nonempty: "''https://www.capterra.com/p/slack/reviews'' \<noteq> []" by simp
  have dw: "trLaunch (demoTrWorld demoSite2) = None"
    "trGotoProduct (demoTrWorld demoSite2) = Inr (demoDoc [] False)"
    "trGotoReviews (demoTrWorld demoSite2)
      = Inr (chain (demoDoc [demoReview ''Review 1'' ''June 15, 2025''] True)
          [demoDoc [demoReview ''Review 2'' ''someday''] True] (Inl ''Navigation timeout''))"
    by (simp_all add: demoTrWorld_def demoSite2_def)
  have sw: "trLaunch (demoTrSearchWorld demoSite2) = None"
    "trGotoProduct (demoTrSearchWorld demoSite2) = Inr demoNotFoundDoc"
    "trGotoReviews (demoTrSearchWorld demoSite2)
      = Inr (chain (demoDoc [demoReview ''Review 1'' ''June 15, 2025''] True)
          [demoDoc [demoReview ''Review 2'' ''someday''] True] (Inl ''Navigation timeout''))"
    by (simp_all add: demoTrSearchWorld_def demoSite2_def)
  note A = navigation_failure_partial [OF n(1) l10 dw(1,2) direct dw(3) n(2) l10 cw(1,2) f nonempty cw(3),
      of "demoEnv 0" "DateMs 1735689600000" "DateMs 1751241600000"]
  note B = navigation_failure_partial [OF n(1) l10 sw(1,2) search sw(3) n(2) l10 cw(1,2) f nonempty cw(3),
      of "demoEnv 0" "DateMs 1735689600000" "DateMs 1751241600000"]
  show ?thesis using A B t c by simp
qed

section \<open>Properties of the date filter and of the failure results\<close>




text \<open>
  Claim C8. With the browser launched, the TrustRadius and the Capterra scraper return a
  result value on every world; an exception of a \<open>page.goto\<close> during the lookup or the
  first navigation gives the failure result with the message of the exception, and a
  lookup that finds no product gives the failure result with the not-found message. The
  try statement of the review route turns every exception that leaves a scraper into a
  response.
\<close>

theorem locate_failures_structured:
  "(trLaunch w = None \<longrightarrow>
      (\<exists>r. scrapeTrustRadiusReviews w e c s t mp = Inr r)
      \<and> (trGotoProduct w = Inl m \<longrightarrow> scrapeTrustRadiusReviews w e c s t mp = Inr (Failure m))
      \<and> (trGotoProduct w = Inr d \<and> notFoundIndicator d \<and> trGotoSearch w = Inl m \<longrightarrow>
           scrapeTrustRadiusReviews w e c s t mp = Inr (Failure m))
      \<and> (trGotoProduct w = Inr d \<and> notFoundIndicator d \<and> trGotoSearch w = Inr sd
           \<and> (trFoundProductUrl sd c = None \<or> trFoundProductUrl sd c = Some []) \<longrightarrow>
           scrapeTrustRadiusReviews w e c s t mp = Inr (Failure (notFoundMessage c ''TrustRadius'')))
      \<and> (trGotoProduct w = Inr d \<and> notFoundIndicator d \<and> trGotoSearch w = Inr sd
           \<and> trFoundProductUrl sd c = Some u \<and> u \<noteq> [] \<and> trGotoFound w = Some m \<longrightarrow>
           scrapeTrustRadiusReviews w e c s t mp = Inr (Failure m))
      \<and> (trGotoProduct w = Inr d \<and> notFoundIndicator d \<and> trGotoSearch w = Inr sd
           \<and> trFoundProductUrl sd c = Some u \<and> u \<noteq> [] \<and> trGotoFound w = None
           \<and> trGotoReviews w = Inl m \<longrightarrow>
           scrapeTrustRadiusReviews w e c s t mp = Inr (Failure m))
      \<and> (trGotoProduct w = Inr d \<and> \<not> notFoundIndicator d \<and> trGotoReviews w = Inl m \<longrightarrow>
           scrapeTrustRadiusReviews w e c s t mp = Inr (Failure m)))
   \<and> (capLaunch w' = None \<longrightarrow>
      (\<exists>r. scrapeCapterraReviews w' e c s t mp = Inr r)
      \<and> (capGotoSearch w' = Inl m \<longrightarrow> scrapeCapterraReviews w' e c s t mp = Inr (Failure m))
      \<and> (capGotoSearch w' = Inr d
           \<and> (capProductFound d c = None \<or> capProductFound d c = Some []) \<longrightarrow>
           scrapeCapterraReviews w' e c s t mp = Inr (Failure (notFoundMessage c ''Capterra'')))
      \<and> (capGotoSearch w' = Inr d \<and> capProductFound d c = Some u \<and> u \<noteq> []
           \<and> capGotoReviews w' = Inl m \<longrightarrow>
           scrapeCapterraReviews w' e c s t mp = Inr (Failure m)))
   \<and> (\<exists>resp. reviewsTryCatch W e c s t src = Inr resp)"
proof -
  have tr: "trLaunch w = None \<Longrightarrow> \<exists>r. scrapeTrustRadiusReviews w e c s t mp = Inr r"
    by (simp add: scrapeTrustRadiusReviews_def split: sum.splits)
  have cap: "capLaunch w' = None \<Longrightarrow> \<exists>r. scrapeCapterraReviews w' e c s t mp = Inr r"
    by (simp add: scrapeCapterraReviews_def split: sum.splits)
  have route: "\<exists>resp. reviewsTryCatch W e c s t src = Inr resp"
    by (simp add: reviewsTryCatch_def split: sum.splits)
  show ?thesis
    using tr cap route
    by (auto simp: scrapeTrustRadiusReviews_def trTry_def scrapeCapterraReviews_def capTry_def
        notFoundMessage_def)
qed

theorem locate_failures_structured_witness:
  "scrapeTrustRadiusReviews demoFailWorld (demoEnv 0) ''Slack'' (DateMs 0) (DateMs 1) 10
     = Inr (Failure ''net::ERR_NAME_NOT_RESOLVED'')
   \<and> scrapeCapterraReviews demoCapFailWorld (demoEnv 0) ''Slack'' (DateMs 0) (DateMs 1) 10
     = Inr (Failure (notFoundMessage ''Slack'' ''Capterra''))
   \<and> reviewsTryCatch demoWorld (demoEnv 0) ''Slack'' (DateMs 0) (DateMs 1) ''TrustRadius''
     = Inr (Response 500 (FailBody ''Failed to launch the browser process''))
   \<and> reviewsTryCatch demoWorld (demoEnv 0) ''Slack'' InvalidDate (DateMs 1) ''G2''
     = Inr (Response 500 (FailBody ''Invalid time value''))"
proof -
  have a: "trLaunch demoFailWorld = None" "trGotoProduct demoFailWorld = Inl ''net::ERR_NAME_NOT_RESOLVED''"
    by (simp_all add: demoFailWorld_def)
  have b: "capLaunch demoCapFailWorld = None"
    "capGotoSearch demoCapFailWorld = Inr \<lparr>docTitle = ''Search'', root = Node [] [] [] []\<rparr>"
    "capProductFound \<lparr>docTitle = ''Search'', root = Node [] [] [] []\<rparr> ''Slack'' = None"
    by (simp_all add: demoCapFailWorld_def capProductFound_def querySelectorAll_def)
  have c: "reviewsTryCatch demoWorld (demoEnv 0) ''Slack'' (DateMs 0) (DateMs 1) ''TrustRadius''
     = Inr (Response 500 (FailBody ''Failed to launch the browser process''))"
    by code_simp
  have d: "reviewsTryCatch demoWorld (demoEnv 0) ''Slack'' InvalidDate (DateMs 1) ''G2''
     = Inr (Response 500 (FailBody ''Invalid time value''))"
    by code_simp
  show ?thesis
    using locate_failures_structured [where w = demoFailWorld and e = "demoEnv 0" and c = "''Slack''"
        and s = "DateMs 0" and t = "DateMs 1" and mp = 10 and m = "''net::ERR_NAME_NOT_RESOLVED''"
        and w' = demoCapFailWorld and d = "\<lparr>docTitle = ''Search'', root = Node [] [] [] []\<rparr>"] a b c d
    by simp
qed

section \<open>Properties of parseDate\<close>

lemma parseDate_chain: "parseDate e s = parseByRules e s"
  unfolding parseDate_def parseByRules_def ruleChain_def nativeRule_def relativeRule_def
    monthNameRule_def ymdRule_def dmyRule_def subtractUnits_def Let_def
  by (simp split: jsdate.splits option.splits)

lemma firstSome_None: "firstSome f xs = None \<longleftrightarrow> (\<forall>x \<in> set xs. f x = None)"
  by (induction xs) (auto split: option.splits)

text \<open>
  The order of the branches: parseDate is the chain of the five rules in the order
  native, relative, month name, year-first numeric, day-first numeric, on the trimmed
  input; it is null for the empty string and exactly when no rule gives a Date.
\<close>

lemma parseDate_rule_order:
  "parseDate e s = parseByRules e s
   \<and> parseDate e [] = None
   \<and> (parseDate e s = None \<longleftrightarrow> s = [] \<or> (\<forall>rule \<in> set ruleChain. rule e (trim s) = None))"
  unfolding parseDate_chain by (simp add: parseByRules_def firstSome_None)

text \<open>
  Claim C1, at failing inputs. The branches are tried in the order the claim gives (the
  lemma above). But the result is not always the instant of a rule or null: on a text
  that the native parser rejects and the relative rule matches, with an amount that leads
  outside the range of a Date, parseDate returns a Date object whose time value is NaN.
  The native branch tests \<open>isNaN\<close> before it returns; the relative branch returns the
  Date it has set without a test.
\<close>

theorem relative_rule_returns_invalid_date:
  "nativeRule (demoEnv 0) ''99999999 weeks ago'' = None
   \<and> relativeRule (demoEnv 0) ''99999999 weeks ago'' = Some InvalidDate
   \<and> parseDate (demoEnv 0) ''99999999 weeks ago'' = Some InvalidDate
   \<and> parseDate (demoEnv 0) ''Posted 4000000 months ago'' = Some InvalidDate"
  by code_simp

section \<open>Relative expressions in days\<close>

lemma code_digitChar: "k < 10 \<Longrightarrow> code (digitChar k) = 48 + k"
  by (simp add: code_def digitChar_def)

lemma isDigit_digitChar: "k < 10 \<Longrightarrow> isDigit (digitChar k)"
  by (simp add: isDigit_def code_digitChar)

lemma digitVal_digitChar: "k < 10 \<Longrightarrow> digitVal (digitChar k) = int k"
  by (simp add: digitVal_def code_digitChar)

lemma decimal_digits: "list_all isDigit (decimal n) \<and> decimal n \<noteq> []"
proof (induction n rule: decimal.induct)
  case (1 n)
  show ?case
  proof (cases "n < 10")
    case True
    then show ?thesis by (subst (1 2) decimal.simps) (simp add: isDigit_digitChar)
  next
    case False
    then show ?thesis using 1 by (subst (1 2) decimal.simps) (simp add: isDigit_digitChar)
  qed
qed

lemma parseInt_snoc: "parseInt (xs @ [c]) = 10 * parseInt xs + digitVal c"
  by (simp add: parseInt_def)

lemma parseInt_decimal: "parseInt (decimal n) = int n"
proof (induction n rule: decimal.induct)
  case (1 n)
  show ?case
  proof (cases "n < 10")
    case True
    then show ?thesis by (subst decimal.simps) (simp add: parseInt_def digitVal_digitChar)
  next
    case False
    then have "parseInt (decimal n) = 10 * int (n div 10) + int (n mod 10)"
      using 1 by (subst decimal.simps) (simp add: parseInt_snoc digitVal_digitChar)
    then show ?thesis by (simp add: zdiv_int zmod_int)
  qed
qed

lemma not_space_digit: "isDigit c \<Longrightarrow> \<not> isSpace c"
  by (auto simp: isDigit_def isSpace_def)















section \<open>The fields of an emitted review\<close>

lemma trim_blank: "trim [] = []" "trim '' '' = []" "trim ''  '' = []"
  by (simp_all add: trim_def isSpace_def code_def)

lemma description_nonempty:
  "description (extractTrustRadius e n) \<noteq> [] \<and> description (extractCapterra e n) \<noteq> []"
  by (simp add: extractTrustRadius_def extractCapterra_def Let_def)

lemma missing_fields_default:
  "querySelector n ''.review-title, .review-heading'' = None \<Longrightarrow>
     title (extractTrustRadius e n) = ''No Title''"
  "querySelector n ''.reviewer-name, .user-info'' = None \<Longrightarrow>
     name (reviewer (extractTrustRadius e n)) = ''Anonymous''"
  "querySelector n ''.review__title'' = None \<Longrightarrow> title (extractCapterra e n) = ''No Title''"
  by (simp_all add: extractTrustRadius_def extractCapterra_def Let_def trimmedText_def)

lemma mockData_fields:
  "\<forall>r \<in> set mockData. title r \<noteq> [] \<and> description r \<noteq> [] \<and> name (reviewer r) \<noteq> []
      \<and> source r = ''G2 (Demo Data)''"
  by (simp add: mockData_def)

text \<open>
  Claim C10, at a failing input. The description of every review of the TrustRadius and
  the Capterra extraction is non-empty, and a missing title or reviewer element gives the
  default text (the lemmas above). But for a review container whose title element and
  reviewer element are present with blank text, both extractions emit the empty title and
  the empty reviewer name: the default is taken only when the element is missing.
\<close>

theorem blank_title_emitted:
  "title (extractTrustRadius e blankReview) = []
   \<and> name (reviewer (extractTrustRadius e blankReview)) = []
   \<and> title (extractCapterra e blankReview) = []
   \<and> name (reviewer (extractCapterra e blankReview)) = []"
  by (simp add: extractTrustRadius_def extractCapterra_def blankReview_def Let_def
      querySelector_def querySelectorAll_def trimmedText_def textNode_def orElse_def trim_blank)

section \<open>The G2 scraper on its demo data\<close>

lemma g2_never_live:
  "scrapeG2Reviews live e companyName startDate endDate maxPages =
     scrapeG2Reviews live' e companyName startDate endDate maxPages"
  by (simp add: scrapeG2Reviews_def useMockData_def)

lemma g2_mock_result:
  "scrapeG2Reviews live e companyName (DateMs s) (DateMs t) maxPages =
     Inr (Success (filter (inRange e (DateMs s) (DateMs t)) mockData) (Some g2Note))"
  by (simp add: scrapeG2Reviews_def useMockData_def)

text \<open>
  Claim C9, at a failing input. The result of the G2 scraper never depends on the live
  path, and for start and end dates with a time value it is the success result with the
  filtered demo data, whatever the company name (the lemmas above). parseDate can return
  a Date whose time value is NaN,
  here for a start date given as 300000 years ago; on such a start or end date the first
  statement of the G2 scraper throws a RangeError and no result is returned.
\<close>

theorem g2_invalid_date_throws:
  "parseDate (demoEnv 0) ''300000 years ago'' = Some InvalidDate
   \<and> scrapeG2Reviews live e companyName InvalidDate endDate maxPages =
       Inl (Exn ''RangeError'' ''Invalid time value'')
   \<and> scrapeG2Reviews live e companyName startDate InvalidDate maxPages =
       Inl (Exn ''RangeError'' ''Invalid time value'')"
proof -
  have "parseDate (demoEnv 0) ''300000 years ago'' = Some InvalidDate"
    by code_simp
  then show ?thesis by (simp add: scrapeG2Reviews_def)
qed

section \<open>The calendar\<close>

lemma DayFromYear_1970: "DayFromYear 1970 = 0"
  by (simp add: DayFromYear_def)

lemma DaysInYear_bounds: "365 \<le> DaysInYear y \<and> DaysInYear y \<le> 366"
  by (simp add: DaysInYear_def)

lemma DayFromYear_mono: "y \<le> y' \<Longrightarrow> DayFromYear y \<le> DayFromYear y'"
proof (induction y' rule: int_ge_induct)
  case base
  show ?case by simp
next
  case (step i)
  have "DayFromYear i \<le> DayFromYear (i + 1)"
    unfolding DayFromYear_Suc using DaysInYear_pos [of i] by simp
  with step show ?case by simp
qed

lemma DayFromYear_up: "DayFromYear (1970 + int k) \<le> 366 * int k"
proof (induction k)
  case 0
  show ?case by (simp add: DayFromYear_1970)
next
  case (Suc k)
  have "DayFromYear (1970 + int (Suc k)) = DayFromYear (1970 + int k) + DaysInYear (1970 + int k)"
    using DayFromYear_Suc [of "1970 + int k"] by (simp add: algebra_simps)
  then show ?case using Suc DaysInYear_bounds [of "1970 + int k"] by simp
qed

lemma DayFromYear_down: "DayFromYear (1970 - int k) \<le> - 365 * int k"
proof (induction k)
  case 0
  show ?case by (simp add: DayFromYear_1970)
next
  case (Suc k)
  have "DayFromYear (1970 - int k) =
      DayFromYear (1970 - int (Suc k)) + DaysInYear (1970 - int (Suc k))"
    using DayFromYear_Suc [of "1970 - int (Suc k)"] by (simp add: algebra_simps)
  then show ?case using Suc DaysInYear_bounds [of "1970 - int (Suc k)"] by simp
qed

lemma yearLow_le: "DayFromYear (yearLow d) \<le> d"
proof (cases "0 \<le> d")
  case True
  define k where "k = nat (d div 366)"
  have k: "int k = d div 366" using True unfolding k_def by simp
  have "DayFromYear (1970 + int k) \<le> 366 * int k" by (rule DayFromYear_up)
  also have "\<dots> \<le> d" unfolding k by simp
  finally show ?thesis using True unfolding yearLow_def k by simp
next
  case False
  define k where "k = nat (- (d div 365))"
  have neg: "d div 365 < 0" using False by simp
  then have k: "int k = - (d div 365)" unfolding k_def by simp
  have "DayFromYear (1970 - int k) \<le> - 365 * int k" by (rule DayFromYear_down)
  also have "\<dots> = 365 * (d div 365)" unfolding k by simp
  also have "\<dots> \<le> d" by simp
  finally show ?thesis using False unfolding yearLow_def k by simp
qed

lemma yearUp_correct:
  "DayFromYear y \<le> d \<Longrightarrow>
     DayFromYear (yearUp d y) \<le> d \<and> d < DayFromYear (yearUp d y + 1)"
proof (induction d y rule: yearUp.induct)
  case (1 d y)
  show ?case
  proof (cases "DayFromYear (y + 1) \<le> d")
    case True
    then show ?thesis using 1 by (subst (1 2) yearUp.simps) simp
  next
    case False
    then show ?thesis using 1 by (subst (1 2) yearUp.simps) simp
  qed
qed

lemma YearFromDay_correct:
  "DayFromYear (YearFromDay d) \<le> d \<and> d < DayFromYear (YearFromDay d + 1)"
  unfolding YearFromDay_def by (rule yearUp_correct [OF yearLow_le])

lemma YearFromDay_eq:
  assumes "DayFromYear y \<le> d" "d < DayFromYear (y + 1)"
  shows "YearFromDay d = y"
proof (rule ccontr)
  assume ne: "YearFromDay d \<noteq> y"
  note c = YearFromDay_correct [of d]
  show False
  proof (cases "YearFromDay d < y")
    case True
    then have "DayFromYear (YearFromDay d + 1) \<le> DayFromYear y" by (intro DayFromYear_mono) simp
    with c assms show False by simp
  next
    case False
    with ne have "DayFromYear (y + 1) \<le> DayFromYear (YearFromDay d)"
      by (intro DayFromYear_mono) simp
    with c assms show False by simp
  qed
qed


lemma month_cases:
  fixes m :: int
  assumes "0 \<le> m" "m \<le> 11"
  shows "m = 0 \<or> m = 1 \<or> m = 2 \<or> m = 3 \<or> m = 4 \<or> m = 5 \<or> m = 6 \<or> m = 7 \<or> m = 8
     \<or> m = 9 \<or> m = 10 \<or> m = 11"
  using assms by arith

lemma monthStart_values:
  "monthStart l 0 = 0" "monthStart l 1 = 31" "monthStart l 2 = 59 + (if l then 1 else 0)"
  "monthStart l 3 = 90 + (if l then 1 else 0)" "monthStart l 4 = 120 + (if l then 1 else 0)"
  "monthStart l 5 = 151 + (if l then 1 else 0)" "monthStart l 6 = 181 + (if l then 1 else 0)"
  "monthStart l 7 = 212 + (if l then 1 else 0)" "monthStart l 8 = 243 + (if l then 1 else 0)"
  "monthStart l 9 = 273 + (if l then 1 else 0)" "monthStart l 10 = 304 + (if l then 1 else 0)"
  "monthStart l 11 = 334 + (if l then 1 else 0)" "monthStart l 12 = 365 + (if l then 1 else 0)"
  by (simp_all add: monthStart_def)

lemma monthOfDay_eq:
  assumes "0 \<le> m" "m \<le> 11" "monthStart l m \<le> w" "w < monthStart l (m + 1)"
  shows "monthOfDay l w = m"
  using month_cases [OF assms(1,2)] assms(3,4)
  by (cases l; elim disjE) (simp_all add: monthOfDay_def monthStart_values)

lemma monthStart_nonneg:
  assumes "0 \<le> m" "m \<le> 11"
  shows "0 \<le> monthStart l m \<and> monthStart l (m + 1) \<le> monthStart l 12"
  using month_cases [OF assms]
  by (elim disjE) (simp_all add: monthStart_values)

lemma DaysInYear_monthStart: "DaysInYear y = monthStart (leapYear y) 12"
  using DaysInYear_bounds [of y] by (auto simp: monthStart_values leapYear_def DaysInYear_def)

lemma Day_add:
  assumes "0 \<le> r" "r < msPerDay"
  shows "Day (D * msPerDay + r) = D"
proof -
  have "(D * msPerDay + r) div msPerDay = D"
    using assms by (intro int_div_pos_eq [where r = r]) (simp_all add: algebra_simps)
  then show ?thesis by (simp add: Day_def)
qed

lemma calendar_roundtrip:
  assumes m: "0 \<le> m" "m \<le> 11" and d: "1 \<le> dt" "dt \<le> DaysInMonth y m"
    and r: "0 \<le> r" "r < msPerDay"
  defines "t \<equiv> MakeDate (MakeDay y m dt) 0 + r"
  shows "YearFromTime t = y \<and> MonthFromTime t = m \<and> DateFromTime t = dt"
proof -
  define l where "l = leapYear y"
  define w where "w = monthStart l m + dt - 1"
  have dm: "m div 12 = 0" "m mod 12 = m" using m by simp_all
  have md: "MakeDay y m dt = DayFromYear y + w"
    unfolding MakeDay_def Let_def dm w_def l_def by simp
  have day: "Day t = DayFromYear y + w"
    unfolding t_def MakeDate_def md using Day_add [OF r] by simp
  have w1: "monthStart l m \<le> w" "w < monthStart l (m + 1)"
    using d unfolding w_def DaysInMonth_def l_def by simp_all
  have w2: "0 \<le> w" "w < DaysInYear y"
    using w1 monthStart_nonneg [OF m, of l] unfolding DaysInYear_monthStart l_def by simp_all
  have yr: "YearFromTime t = y"
    unfolding YearFromTime_def day
    using w2 by (intro YearFromDay_eq) (simp_all add: DayFromYear_Suc)
  have dwy: "DayWithinYear t = w" unfolding DayWithinYear_def yr day by simp
  have mo: "MonthFromTime t = m"
    unfolding MonthFromTime_def yr dwy l_def [symmetric] by (rule monthOfDay_eq [OF m w1])
  have da: "DateFromTime t = dt"
    unfolding DateFromTime_def mo yr dwy l_def [symmetric] w_def by simp
  show ?thesis using yr mo da by simp
qed

section \<open>parseDate followed by formatDate\<close>

lemma decimal_small: "n < 10 \<Longrightarrow> decimal n = [digitChar n]"
  by (subst decimal.simps) simp

lemma decimal_large: "10 \<le> n \<Longrightarrow> decimal n = decimal (n div 10) @ [digitChar (n mod 10)]"
  by (subst decimal.simps) simp

lemma length_decimal4:
  assumes "1000 \<le> n" "n < 10000"
  shows "length (decimal n) = 4"
proof -
  have a: "10 \<le> n" "10 \<le> n div 10" "10 \<le> n div 10 div 10" "n div 10 div 10 div 10 < 10"
    using assms by simp_all
  show ?thesis
    by (simp add: decimal_large [OF a(1)] decimal_large [OF a(2)] decimal_large [OF a(3)]
        decimal_small [OF a(4)])
qed

lemma digitVal_zero: "digitVal CHR ''0'' = 0"
  by (simp add: digitVal_def code_def)

lemma isDigit_zero: "isDigit CHR ''0''"
  by (simp add: isDigit_def code_def)

lemma pad2:
  assumes "n < 100"
  shows "length (padStart (decimal n) 2 CHR ''0'') = 2
    \<and> list_all isDigit (padStart (decimal n) 2 CHR ''0'')
    \<and> parseInt (padStart (decimal n) 2 CHR ''0'') = int n"
proof (cases "n < 10")
  case True
  have "padStart (decimal n) 2 CHR ''0'' = CHR ''0'' # decimal n"
    by (simp add: padStart_def decimal_small [OF True])
  then show ?thesis
    using True by (simp add: parseInt_def digitVal_digitChar isDigit_zero
        isDigit_digitChar decimal_small [OF True] digitVal_zero)
next
  case False
  then have a: "10 \<le> n" "n div 10 < 10" using assms by simp_all
  have l: "length (decimal n) = 2"
    by (simp add: decimal_large [OF a(1)] decimal_small [OF a(2)])
  then have "padStart (decimal n) 2 CHR ''0'' = decimal n" by (simp add: padStart_def)
  then show ?thesis using l decimal_digits [of n] by (simp add: parseInt_decimal)
qed

lemma iso_parts:
  assumes "length A = 4" "length B = 2" "length C = 2"
  shows "take 4 (A @ ''-'' @ B @ ''-'' @ C) = A"
    and "(A @ ''-'' @ B @ ''-'' @ C) ! 4 = CHR ''-''"
    and "take 2 (drop 5 (A @ ''-'' @ B @ ''-'' @ C)) = B"
    and "(A @ ''-'' @ B @ ''-'' @ C) ! 7 = CHR ''-''"
    and "drop 8 (A @ ''-'' @ B @ ''-'' @ C) = C"
    and "length (A @ ''-'' @ B @ ''-'' @ C) = 10"
  using assms by (simp_all add: nth_append)

lemma iso_recognised:
  assumes "1000 \<le> y" "y \<le> 9999" "1 \<le> m" "m \<le> 12" "1 \<le> d" "d \<le> DaysInMonth y (m - 1)"
  shows "isoDateOnly (isoText y m d) = Some (y, m, d)"
proof -
  define A where "A = decimal (nat y)"
  define B where "B = padStart (decimal (nat m)) 2 CHR ''0''"
  define C where "C = padStart (decimal (nat d)) 2 CHR ''0''"
  have d31: "d \<le> 31"
    using assms(3,4,6) month_cases [of "m - 1"]
    by (cases "leapYear y") (auto simp: DaysInMonth_def monthStart_values)
  have A: "length A = 4" "list_all isDigit A" "parseInt A = y"
    unfolding A_def using assms(1,2) length_decimal4 [of "nat y"] decimal_digits [of "nat y"]
    by (simp_all add: parseInt_decimal)
  have B: "length B = 2" "list_all isDigit B" "parseInt B = m"
    unfolding B_def using pad2 [of "nat m"] assms(3,4) by simp_all
  have C: "length C = 2" "list_all isDigit C" "parseInt C = d"
    unfolding C_def using pad2 [of "nat d"] assms(5) d31 by simp_all
  have t: "isoText y m d = A @ ''-'' @ B @ ''-'' @ C"
    unfolding isoText_def A_def B_def C_def String_of_int_def using assms(1,3,5) by simp
  show ?thesis
    unfolding t isoDateOnly_def Let_def iso_parts [OF A(1) B(1) C(1)]
    using A B C assms by simp
qed

lemma DayFromYear_range:
  assumes "1000 \<le> y" "y \<le> 9999"
  shows "- 354285 \<le> DayFromYear y \<and> DayFromYear y \<le> 2932532"
proof -
  have v: "DayFromYear 1000 = - 354285" "DayFromYear 9999 = 2932532"
    by (simp_all add: DayFromYear_def)
  have "DayFromYear 1000 \<le> DayFromYear y" "DayFromYear y \<le> DayFromYear 9999"
    using assms by (simp_all add: DayFromYear_mono)
  then show ?thesis unfolding v by simp
qed

lemma iso_roundtrip:
  assumes y: "1000 \<le> y" "y \<le> 9999" and m: "1 \<le> m" "m \<le> 12"
    and d: "1 \<le> d" "d \<le> DaysInMonth y (m - 1)"
    and tz: "0 \<le> tzaUTC e (MakeDate (MakeDay y (m - 1) d) 0)"
      "tzaUTC e (MakeDate (MakeDay y (m - 1) d) 0) < msPerDay"
  shows "formatDate e (parseDate e (isoText y m d)) = isoText y m d"
proof -
  define t where "t = MakeDate (MakeDay y (m - 1) d) 0"
  have m0: "0 \<le> m - 1" "m - 1 \<le> 11" using m by simp_all
  have ne: "isoText y m d \<noteq> []" by (simp add: isoText_def)
  have dg: "list_all isDigit (decimal (nat y))" "decimal (nat y) \<noteq> []"
    "list_all isDigit (padStart (decimal (nat d)) 2 CHR ''0'')"
    "length (padStart (decimal (nat d)) 2 CHR ''0'') = 2"
    using decimal_digits [of "nat y"] pad2 [of "nat d"] d m0 month_cases [OF m0]
    by (cases "leapYear y"; auto simp: DaysInMonth_def monthStart_values)+
  have tr: "trim (isoText y m d) = isoText y m d"
  proof -
    obtain a as where a: "decimal (nat y) = a # as" using dg(2) by (cases "decimal (nat y)") auto
    obtain c1 c2 where c: "padStart (decimal (nat d)) 2 CHR ''0'' = [c1, c2]"
      using dg(4) by (cases "padStart (decimal (nat d)) 2 CHR ''0''" rule: list.exhaust)
        (auto simp: length_Suc_conv)
    have "\<not> isSpace a" "\<not> isSpace c2"
      using dg(1,3) unfolding a c by (simp_all add: not_space_digit)
    then show ?thesis
      using y d unfolding isoText_def String_of_int_def trim_def
      by (simp add: a c)
  qed
  have w: "0 \<le> monthStart (leapYear y) (m - 1) + d - 1"
    "monthStart (leapYear y) (m - 1) + d - 1 < 366"
    using d monthStart_nonneg [OF m0, of "leapYear y"]
    by (cases "leapYear y"; simp add: DaysInMonth_def monthStart_values)+
  have dm: "(m - 1) div 12 = 0" "(m - 1) mod 12 = m - 1" using m0 by simp_all
  have clip: "TimeClip t = DateMs t"
    using DayFromYear_range [OF y] w
    unfolding t_def MakeDate_def MakeDay_def Let_def dm TimeClip_def msPerDay_def
    by (simp add: abs_le_iff)
  have pd: "parseDate e (isoText y m d) = Some (DateMs t)"
    unfolding parseDate_def using ne
    by (simp add: tr newDateString_def Date_parse_def iso_recognised [OF y m d] clip t_def [symmetric])
  have cal: "YearFromTime (LocalTime e t) = y \<and> MonthFromTime (LocalTime e t) = m - 1
      \<and> DateFromTime (LocalTime e t) = d"
    unfolding LocalTime_def t_def using calendar_roundtrip [OF m0 d tz] by simp
  show ?thesis
    unfolding pd by (simp add: Let_def getFullYear_def getMonth_def getDate_def cal isoText_def)
qed

text \<open>
  Claim C7, at failing inputs. The round trip holds for the years 1000 to 9999 on a host
  whose local time is at or east of UTC (lemma \<open>iso_roundtrip\<close>). On a host five hours
  west of UTC the ISO date 2025-01-15 is parsed as midnight UTC and formatted in local
  time as the day before; on a host at UTC the ISO date 0999-01-15 is formatted with a
  three-digit year.
\<close>

theorem iso_roundtrip_shifted:
  "formatDate (demoEnv (- 18000000)) (parseDate (demoEnv (- 18000000)) ''2025-01-15'')
     = ''2025-01-14''
   \<and> formatDate (demoEnv 0) (parseDate (demoEnv 0) ''0999-01-15'') = ''999-01-15''"
  by code_simp

end
